theory Spec2Isabelle
  imports Main "HOL-Library.AList"
begin

section \<open>Account data model (models/User.js)\<close>

text \<open>
  Dates are the millisecond time stamps that JavaScript compares (\<open>Date.getTime\<close>);
  an unset or null date is \<open>None\<close>, and so is a subscription's \<open>isActive\<close> flag
  when the stored object has none. Token quantities are the schema's \<open>Number\<close>
  fields, taken as integers; the schema puts no lower bound on them. Document ids are
  natural numbers. One call reads the clock at one instant \<open>now\<close>.
\<close>

type_synonym time = int
type_synonym objectId = nat

record subscription =
  sub_planId :: "objectId option"
  sub_startDate :: "time option"
  sub_endDate :: "time option"
  sub_isActive :: "bool option"
  sub_dailyTokens :: int
  sub_monthlyAllocation :: int

record daily_bucket =
  daily_current :: int
  daily_limit :: int
  daily_usedToday :: int

record purchased_bucket =
  purchased_current :: int
  purchased_total :: int
  purchased_used :: int
  purchased_lastPurchasedAt :: "time option"
  purchased_expiresAt :: "time option"

record bonus_bucket =
  bonus_current :: int
  bonus_initial :: int
  bonus_used :: int
  bonus_grantedAt :: "time option"

record prize_bucket =
  prize_current :: int
  prize_used :: int

record token_stats =
  totalUsed :: int
  dailyUsed :: int
  purchasedUsed :: int
  bonusUsed :: int
  prizeUsed :: int
  planPeriodUsed :: int

datatype referral_status = RefPending | RefActive | RefExpired | RefCycled

record referral =
  ref_userId :: objectId
  ref_joinedAt :: time
  ref_isActive :: bool
  ref_subscriptionStatus :: referral_status

record referral_stats =
  totalReferrals :: int
  activeReferrals :: int
  totalEarnings :: int

record temporary_tokens =
  temp_amount :: int
  temp_grantedAt :: "time option"
  temp_expiresAt :: "time option"
  temp_grantedBy :: "string option"
  temp_prizeType :: "string option"

record milestone_rewards =
  referral8Cycles :: int
  referral8LastReset :: "time option"
  referral15Cycles :: int
  referral15LastReset :: "time option"
  referral25Cycles :: int
  referral25LastReset :: "time option"
  totalTokensEarned :: int

text \<open>
  A notification of type \<open>milestone_reward\<close>; its message text is formatted from the
  cycle number, the reward and the target, which are kept here as numbers.
\<close>

record notification =
  note_type :: string
  note_cycle :: int
  note_reward :: int
  note_target :: int
  note_isRead :: bool
  note_createdAt :: time

record user =
  user_id :: objectId
  user_name :: string
  email :: string
  tokens :: int
  tokensUsedTotal :: int
  tokensUsedToday :: int
  monthlyTokensTotal :: int
  monthlyTokensUsed :: int
  monthlyTokensRemaining :: int
  dailyTokens :: daily_bucket
  purchasedTokens :: purchased_bucket
  bonusTokens :: bonus_bucket
  prizeTokens :: prize_bucket
  tokenStats :: token_stats
  subscription :: subscription
  temporaryTokens :: temporary_tokens
  notifications :: "notification list"
  unreadNotificationCount :: int
  milestoneRewards :: milestone_rewards
  referralCode :: "string option"
  referredBy :: "objectId option"
  referrals :: "referral list"
  referralStats :: referral_stats

text \<open>
  A collection holds its documents in insertion order, keyed by \<open>_id\<close>:
  \<open>findById\<close> looks a key up, \<open>save\<close> replaces the document in place or
  appends a new one, \<open>findOne\<close> returns the first document a query matches and
  \<open>findByIdAndDelete\<close> removes one.
\<close>

type_synonym 'a collection = "(objectId \<times> 'a) list"

definition findById :: "'a collection \<Rightarrow> objectId \<Rightarrow> 'a option" where
  "findById c i = map_of c i"

definition save :: "'a collection \<Rightarrow> objectId \<Rightarrow> 'a \<Rightarrow> 'a collection" where
  "save c i d = AList.update i d c"

definition findOne :: "('a \<Rightarrow> bool) \<Rightarrow> 'a collection \<Rightarrow> 'a option" where
  "findOne q c = find q (map snd c)"

definition findByIdAndDelete :: "'a collection \<Rightarrow> objectId \<Rightarrow> 'a collection" where
  "findByIdAndDelete c i = AList.delete i c"

type_synonym users = "user collection"

text \<open>A document built by \<open>new User\<close> from the schema's defaults alone.\<close>

definition schemaDefaults :: "objectId \<Rightarrow> string \<Rightarrow> string \<Rightarrow> user" where
  "schemaDefaults i nm em =
     \<lparr> user_id = i, user_name = nm, email = em,
       tokens = 0, tokensUsedTotal = 0, tokensUsedToday = 0,
       monthlyTokensTotal = 0, monthlyTokensUsed = 0, monthlyTokensRemaining = 0,
       dailyTokens = \<lparr>daily_current = 0, daily_limit = 100, daily_usedToday = 0\<rparr>,
       purchasedTokens =
         \<lparr>purchased_current = 0, purchased_total = 0, purchased_used = 0,
          purchased_lastPurchasedAt = None, purchased_expiresAt = None\<rparr>,
       bonusTokens =
         \<lparr>bonus_current = 0, bonus_initial = 0, bonus_used = 0, bonus_grantedAt = None\<rparr>,
       prizeTokens = \<lparr>prize_current = 0, prize_used = 0\<rparr>,
       tokenStats =
         \<lparr>totalUsed = 0, dailyUsed = 0, purchasedUsed = 0, bonusUsed = 0, prizeUsed = 0,
          planPeriodUsed = 0\<rparr>,
       subscription =
         \<lparr>sub_planId = None, sub_startDate = None, sub_endDate = None, sub_isActive = Some True,
          sub_dailyTokens = 100, sub_monthlyAllocation = 0\<rparr>,
       temporaryTokens =
         \<lparr>temp_amount = 0, temp_grantedAt = None, temp_expiresAt = None,
          temp_grantedBy = None, temp_prizeType = None\<rparr>,
       notifications = [], unreadNotificationCount = 0,
       milestoneRewards =
         \<lparr>referral8Cycles = 0, referral8LastReset = None,
          referral15Cycles = 0, referral15LastReset = None,
          referral25Cycles = 0, referral25LastReset = None, totalTokensEarned = 0\<rparr>,
       referralCode = None, referredBy = None, referrals = [],
       referralStats = \<lparr>totalReferrals = 0, activeReferrals = 0, totalEarnings = 0\<rparr> \<rparr>"

section \<open>Token utilities (utils/enhancedTokenUtils.js)\<close>

text \<open>
  The check \<open>!user.subscription?.endDate || user.subscription.endDate < now\<close> that
  \<open>calculateTotalTokens\<close>, \<open>deductTokens\<close>, \<open>addPurchasedTokens\<close>,
  \<open>grantPrizeTokens\<close> and \<open>cleanExpiredTokens\<close> each write out.
\<close>

definition planExpired :: "time \<Rightarrow> user \<Rightarrow> bool" where
  "planExpired now u =
     (case sub_endDate (subscription u) of None \<Rightarrow> True | Some e \<Rightarrow> e < now)"

definition bucketSum :: "user \<Rightarrow> int" where
  "bucketSum u =
     daily_current (dailyTokens u) + purchased_current (purchasedTokens u)
       + bonus_current (bonusTokens u) + prize_current (prizeTokens u)"

definition calculateTotalTokens :: "time \<Rightarrow> user \<Rightarrow> int" where
  "calculateTotalTokens now u = (if planExpired now u then 0 else bucketSum u)"

record token_breakdown =
  tb_daily_current :: int
  tb_daily_limit :: int
  tb_daily_usedToday :: int
  tb_purchased_current :: int
  tb_purchased_total :: int
  tb_purchased_used :: int
  tb_bonus_current :: int
  tb_bonus_initial :: int
  tb_bonus_used :: int
  tb_prize_current :: int
  tb_prize_used :: int
  tb_total :: int
  tb_isActive :: bool
  tb_endDate :: "time option"
  tb_daysRemaining :: int

text \<open>
  \<open>planActive\<close> is \<open>endDate && endDate > now\<close>, a strict comparison;
  \<open>Math.ceil(x / d)\<close> on integers is \<open>- ((- x) div d)\<close>; \<open>limit || 100\<close>
  replaces a zero limit by 100.
\<close>

definition planActive :: "time \<Rightarrow> user \<Rightarrow> bool" where
  "planActive now u =
     (case sub_endDate (subscription u) of None \<Rightarrow> False | Some e \<Rightarrow> e > now)"

definition getTokenBreakdown :: "time \<Rightarrow> user \<Rightarrow> token_breakdown" where
  "getTokenBreakdown now u =
     (let active = planActive now u;
          daysRemaining =
            (case sub_endDate (subscription u) of
               None \<Rightarrow> 0
             | Some e \<Rightarrow> if active then - ((now - e) div (1000 * 60 * 60 * 24)) else 0)
      in \<lparr> tb_daily_current = (if active then daily_current (dailyTokens u) else 0),
           tb_daily_limit =
             (if daily_limit (dailyTokens u) = 0 then 100 else daily_limit (dailyTokens u)),
           tb_daily_usedToday = daily_usedToday (dailyTokens u),
           tb_purchased_current = (if active then purchased_current (purchasedTokens u) else 0),
           tb_purchased_total = purchased_total (purchasedTokens u),
           tb_purchased_used = purchased_used (purchasedTokens u),
           tb_bonus_current = (if active then bonus_current (bonusTokens u) else 0),
           tb_bonus_initial = bonus_initial (bonusTokens u),
           tb_bonus_used = bonus_used (bonusTokens u),
           tb_prize_current = (if active then prize_current (prizeTokens u) else 0),
           tb_prize_used = prize_used (prizeTokens u),
           tb_total = (if active then calculateTotalTokens now u else 0),
           tb_isActive = active,
           tb_endDate = sub_endDate (subscription u),
           tb_daysRemaining = daysRemaining \<rparr>)"

datatype error =
    UserNotFound
  | SubscriptionExpired
  | InsufficientTokens int int
  | NoActiveSubscription

record deduction_breakdown =
  bd_daily :: int
  bd_purchased :: int
  bd_bonus :: int
  bd_prize :: int

record deduct_result =
  dr_tokensDeducted :: int
  dr_breakdown :: deduction_breakdown
  dr_remaining :: token_breakdown

text \<open>
  The four steps of \<open>deductTokens\<close>, each on the triple of the \<open>remaining\<close>
  counter, the loaded document and the breakdown built so far.
\<close>

type_synonym deduct_state = "int \<times> user \<times> deduction_breakdown"

definition deductDaily :: "deduct_state \<Rightarrow> deduct_state" where
  "deductDaily s =
     (case s of (remaining, u, bd) \<Rightarrow>
        if remaining > 0 \<and> daily_current (dailyTokens u) > 0
        then let deductFromDaily = min remaining (daily_current (dailyTokens u))
             in (remaining - deductFromDaily,
                 u\<lparr>dailyTokens := (dailyTokens u)
                      \<lparr>daily_current := daily_current (dailyTokens u) - deductFromDaily,
                       daily_usedToday := daily_usedToday (dailyTokens u) + deductFromDaily\<rparr>\<rparr>,
                 bd\<lparr>bd_daily := deductFromDaily\<rparr>)
        else s)"

definition deductPurchased :: "deduct_state \<Rightarrow> deduct_state" where
  "deductPurchased s =
     (case s of (remaining, u, bd) \<Rightarrow>
        if remaining > 0 \<and> purchased_current (purchasedTokens u) > 0
        then let deductFromPurchased = min remaining (purchased_current (purchasedTokens u))
             in (remaining - deductFromPurchased,
                 u\<lparr>purchasedTokens := (purchasedTokens u)
                      \<lparr>purchased_current :=
                         purchased_current (purchasedTokens u) - deductFromPurchased,
                       purchased_used := purchased_used (purchasedTokens u) + deductFromPurchased\<rparr>\<rparr>,
                 bd\<lparr>bd_purchased := deductFromPurchased\<rparr>)
        else s)"

definition deductBonus :: "deduct_state \<Rightarrow> deduct_state" where
  "deductBonus s =
     (case s of (remaining, u, bd) \<Rightarrow>
        if remaining > 0 \<and> bonus_current (bonusTokens u) > 0
        then let deductFromBonus = min remaining (bonus_current (bonusTokens u))
             in (remaining - deductFromBonus,
                 u\<lparr>bonusTokens := (bonusTokens u)
                      \<lparr>bonus_current := bonus_current (bonusTokens u) - deductFromBonus,
                       bonus_used := bonus_used (bonusTokens u) + deductFromBonus\<rparr>\<rparr>,
                 bd\<lparr>bd_bonus := deductFromBonus\<rparr>)
        else s)"

definition deductPrize :: "deduct_state \<Rightarrow> deduct_state" where
  "deductPrize s =
     (case s of (remaining, u, bd) \<Rightarrow>
        if remaining > 0 \<and> prize_current (prizeTokens u) > 0
        then let deductFromPrize = min remaining (prize_current (prizeTokens u))
             in (remaining - deductFromPrize,
                 u\<lparr>prizeTokens := (prizeTokens u)
                      \<lparr>prize_current := prize_current (prizeTokens u) - deductFromPrize,
                       prize_used := prize_used (prizeTokens u) + deductFromPrize\<rparr>\<rparr>,
                 bd\<lparr>bd_prize := deductFromPrize\<rparr>)
        else s)"

text \<open>
  The statistics and legacy fields written after the four steps. The schema nests
  \<open>tokenStats\<close> with defaults, so the document always has it.
\<close>

definition updateStatistics :: "time \<Rightarrow> int \<Rightarrow> deduction_breakdown \<Rightarrow> user \<Rightarrow> user" where
  "updateStatistics now tokensToDeduct bd u =
     (let st = tokenStats u;
          st' = st\<lparr>totalUsed := totalUsed st + tokensToDeduct,
                   dailyUsed := dailyUsed st + bd_daily bd,
                   purchasedUsed := purchasedUsed st + bd_purchased bd,
                   bonusUsed := bonusUsed st + bd_bonus bd,
                   prizeUsed := prizeUsed st + bd_prize bd,
                   planPeriodUsed := planPeriodUsed st + tokensToDeduct\<rparr>;
          u1 = u\<lparr>tokenStats := st',
                 tokensUsedTotal := totalUsed st',
                 tokensUsedToday := daily_usedToday (dailyTokens u),
                 monthlyTokensUsed := monthlyTokensUsed u + tokensToDeduct\<rparr>;
          u2 = (if monthlyTokensRemaining u1 > 0
                then u1\<lparr>monthlyTokensRemaining :=
                          max 0 (monthlyTokensRemaining u1 - tokensToDeduct)\<rparr>
                else u1)
      in u2\<lparr>tokens := calculateTotalTokens now u2\<rparr>)"

text \<open>
  \<open>deductTokens\<close> returns its outcome and the stored accounts: a thrown error leaves
  the store as it was, since \<open>user.save()\<close> is only reached on success.
\<close>

definition deductTokens ::
  "time \<Rightarrow> users \<Rightarrow> objectId \<Rightarrow> int \<Rightarrow> (error + deduct_result) \<times> users" where
  "deductTokens now db userId tokensToDeduct =
     (case findById db userId of
        None \<Rightarrow> (Inl UserNotFound, db)
      | Some u \<Rightarrow>
          if planExpired now u then (Inl SubscriptionExpired, db)
          else
            let availableTokens = calculateTotalTokens now u in
            if availableTokens < tokensToDeduct
            then (Inl (InsufficientTokens tokensToDeduct availableTokens), db)
            else
              (case deductPrize (deductBonus (deductPurchased (deductDaily
                      (tokensToDeduct, u,
                       \<lparr>bd_daily = 0, bd_purchased = 0, bd_bonus = 0, bd_prize = 0\<rparr>))))
               of (remaining, u1, bd) \<Rightarrow>
                  let u2 = updateStatistics now tokensToDeduct bd u1
                  in (Inr \<lparr>dr_tokensDeducted = tokensToDeduct,
                           dr_breakdown = bd,
                           dr_remaining = getTokenBreakdown now u2\<rparr>,
                      save db userId u2)))"

subsection \<open>Auxiliary definitions for the deduction proofs\<close>

text \<open>
  What one step of \<open>deductTokens\<close> takes from a bucket holding \<open>c\<close> when
  \<open>remaining\<close> is still owed: the guard \<open>remaining > 0 && bucket.current > 0\<close>
  followed by \<open>Math.min\<close>.
\<close>

definition takeFrom :: "int \<Rightarrow> int \<Rightarrow> int" where
  "takeFrom remaining c = (if remaining > 0 \<and> c > 0 then min remaining c else 0)"

text \<open>
  The deduction algorithm in the specification's words: visit the buckets in the given
  order, at each step take \<open>min(remaining, bucket.current)\<close> and decrement
  \<open>remaining\<close>; once nothing remains to be taken, stop (the later buckets give 0).
\<close>

fun debit :: "int \<Rightarrow> int list \<Rightarrow> int list" where
  "debit remaining [] = []"
| "debit remaining (c # cs) =
     (if remaining \<le> 0 then 0 # debit remaining cs
      else let t = min remaining c in t # debit (remaining - t) cs)"

text \<open>The amounts the four steps take in turn, and the account after them.\<close>

definition take1 :: "int \<Rightarrow> user \<Rightarrow> int" where
  "take1 n u = takeFrom n (daily_current (dailyTokens u))"

definition take2 :: "int \<Rightarrow> user \<Rightarrow> int" where
  "take2 n u = takeFrom (n - take1 n u) (purchased_current (purchasedTokens u))"

definition take3 :: "int \<Rightarrow> user \<Rightarrow> int" where
  "take3 n u = takeFrom (n - take1 n u - take2 n u) (bonus_current (bonusTokens u))"

definition take4 :: "int \<Rightarrow> user \<Rightarrow> int" where
  "take4 n u = takeFrom (n - take1 n u - take2 n u - take3 n u) (prize_current (prizeTokens u))"

definition debited :: "int \<Rightarrow> user \<Rightarrow> user" where
  "debited n u =
     u\<lparr>dailyTokens := (dailyTokens u)
          \<lparr>daily_current := daily_current (dailyTokens u) - take1 n u,
           daily_usedToday := daily_usedToday (dailyTokens u) + take1 n u\<rparr>,
        purchasedTokens := (purchasedTokens u)
          \<lparr>purchased_current := purchased_current (purchasedTokens u) - take2 n u,
           purchased_used := purchased_used (purchasedTokens u) + take2 n u\<rparr>,
        bonusTokens := (bonusTokens u)
          \<lparr>bonus_current := bonus_current (bonusTokens u) - take3 n u,
           bonus_used := bonus_used (bonusTokens u) + take3 n u\<rparr>,
        prizeTokens := (prizeTokens u)
          \<lparr>prize_current := prize_current (prizeTokens u) - take4 n u,
           prize_used := prize_used (prizeTokens u) + take4 n u\<rparr>\<rparr>"

text \<open>
  A concrete account: daily 5, purchased 10, bonus 0, prize 0, plan ending at time 2000.
\<close>

definition sampleAccount :: user where
  "sampleAccount =
     (schemaDefaults 1 ''Asha'' ''asha@example.com'')
       \<lparr>dailyTokens := \<lparr>daily_current = 5, daily_limit = 100, daily_usedToday = 0\<rparr>,
        purchasedTokens :=
          \<lparr>purchased_current = 10, purchased_total = 10, purchased_used = 0,
           purchased_lastPurchasedAt = None, purchased_expiresAt = None\<rparr>,
        subscription :=
          \<lparr>sub_planId = Some 1, sub_startDate = Some 0, sub_endDate = Some 2000,
           sub_isActive = Some True, sub_dailyTokens = 5, sub_monthlyAllocation = 150\<rparr>\<rparr>"

definition sampleAccounts :: users where
  "sampleAccounts = [(1, sampleAccount)]"

text \<open>The same account with its daily bucket overdrawn: daily -5, purchased 10.\<close>

definition overdrawnAccount :: user where
  "overdrawnAccount =
     sampleAccount\<lparr>dailyTokens := \<lparr>daily_current = - 5, daily_limit = 100, daily_usedToday = 0\<rparr>\<rparr>"

definition overdrawnAccounts :: users where
  "overdrawnAccounts = [(1, overdrawnAccount)]"

section \<open>Referral cycle engine (utils/referralUtils.js)\<close>

text \<open>
  \<open>REFERRAL_MILESTONES\<close> is an object literal; \<open>Object.entries\<close> lists it in the
  order written. The \<open>cycleField\<close> and \<open>resetField\<close> strings name fields of
  \<open>milestoneRewards\<close>, read and written by index.
\<close>

datatype cycle_field = Referral8 | Referral15 | Referral25

record milestone =
  ms_target :: int
  ms_reward :: int
  ms_field :: cycle_field

definition REFERRAL_MILESTONES :: "(string \<times> milestone) list" where
  "REFERRAL_MILESTONES =
     [(''referral_8'', \<lparr>ms_target = 8, ms_reward = 300, ms_field = Referral8\<rparr>),
      (''referral_15'', \<lparr>ms_target = 15, ms_reward = 500, ms_field = Referral15\<rparr>),
      (''referral_25'', \<lparr>ms_target = 25, ms_reward = 1000, ms_field = Referral25\<rparr>)]"

fun getCycles :: "cycle_field \<Rightarrow> milestone_rewards \<Rightarrow> int" where
  "getCycles Referral8 mr = referral8Cycles mr"
| "getCycles Referral15 mr = referral15Cycles mr"
| "getCycles Referral25 mr = referral25Cycles mr"

fun setCycles :: "cycle_field \<Rightarrow> int \<Rightarrow> milestone_rewards \<Rightarrow> milestone_rewards" where
  "setCycles Referral8 c mr = mr\<lparr>referral8Cycles := c\<rparr>"
| "setCycles Referral15 c mr = mr\<lparr>referral15Cycles := c\<rparr>"
| "setCycles Referral25 c mr = mr\<lparr>referral25Cycles := c\<rparr>"

fun setLastReset :: "cycle_field \<Rightarrow> time \<Rightarrow> milestone_rewards \<Rightarrow> milestone_rewards" where
  "setLastReset Referral8 t mr = mr\<lparr>referral8LastReset := Some t\<rparr>"
| "setLastReset Referral15 t mr = mr\<lparr>referral15LastReset := Some t\<rparr>"
| "setLastReset Referral25 t mr = mr\<lparr>referral25LastReset := Some t\<rparr>"

text \<open>Decimal rendering of a number inside a template string.\<close>

fun showNat :: "nat \<Rightarrow> string" where
  "showNat n =
     (if n < 10 then [''0123456789'' ! n]
      else showNat (n div 10) @ [''0123456789'' ! (n mod 10)])"

definition showInt :: "int \<Rightarrow> string" where
  "showInt i = (if i < 0 then ''-'' @ showNat (nat (- i)) else showNat (nat i))"

definition updateReferralStats :: "users \<Rightarrow> objectId \<Rightarrow> users" where
  "updateReferralStats db referrerId =
     (case findById db referrerId of
        None \<Rightarrow> db
      | Some u \<Rightarrow>
          save db referrerId (u\<lparr>referralStats := (referralStats u)
                  \<lparr>totalReferrals := int (length (referrals u)),
                   activeReferrals := int (length (filter ref_isActive (referrals u)))\<rparr>\<rparr>))"

text \<open>
  \<open>referrals.forEach\<close>: every active entry becomes inactive and \<open>cycled\<close>.
\<close>

definition cycleReferral :: "referral \<Rightarrow> referral" where
  "cycleReferral r =
     (if ref_isActive r
      then r\<lparr>ref_isActive := False, ref_subscriptionStatus := RefCycled\<rparr>
      else r)"

definition grantMilestoneRewardAndReset ::
  "time \<Rightarrow> user \<Rightarrow> string \<Rightarrow> milestone \<Rightarrow> user" where
  "grantMilestoneRewardAndReset now u milestoneType m =
     (let expiresAt = now + 24 * 60 * 60 * 1000;
          currentCycle = getCycles (ms_field m) (milestoneRewards u) + 1;
          mr = setLastReset (ms_field m) now
                 (setCycles (ms_field m) currentCycle (milestoneRewards u))
      in u\<lparr>temporaryTokens :=
              \<lparr>temp_amount = ms_reward m, temp_grantedAt = Some now,
               temp_expiresAt = Some expiresAt, temp_grantedBy = Some ''system'',
               temp_prizeType = Some (milestoneType @ ''_cycle_'' @ showInt currentCycle)\<rparr>,
            milestoneRewards := mr\<lparr>totalTokensEarned := totalTokensEarned mr + ms_reward m\<rparr>,
            referralStats := (referralStats u)\<lparr>activeReferrals := 0\<rparr>,
            referrals := map cycleReferral (referrals u),
            notifications := notifications u @
              [\<lparr>note_type = ''milestone_reward'', note_cycle = currentCycle,
                note_reward = ms_reward m, note_target = ms_target m,
                note_isRead = False, note_createdAt = now\<rparr>],
            unreadNotificationCount := unreadNotificationCount u + 1\<rparr>)"

text \<open>
  The \<open>for ... of\<close> loop of \<open>checkReferralMilestones\<close> with its \<open>break\<close>:
  the first entry whose target is met is granted and the loop ends.
\<close>

fun milestoneLoop ::
  "time \<Rightarrow> user \<Rightarrow> int \<Rightarrow> (string \<times> milestone) list \<Rightarrow> user option" where
  "milestoneLoop now u active [] = None"
| "milestoneLoop now u active ((milestoneKey, m) # rest) =
     (if active \<ge> ms_target m
      then Some (grantMilestoneRewardAndReset now u milestoneKey m)
      else milestoneLoop now u active rest)"

definition checkReferralMilestones :: "time \<Rightarrow> users \<Rightarrow> objectId \<Rightarrow> users" where
  "checkReferralMilestones now db referrerId =
     (case findById db referrerId of
        None \<Rightarrow> db
      | Some u \<Rightarrow>
          (case milestoneLoop now u (activeReferrals (referralStats u)) REFERRAL_MILESTONES of
             None \<Rightarrow> db
           | Some u' \<Rightarrow> save db referrerId u'))"

text \<open>
  \<open>findOneAndUpdate\<close> with the positional operator sets the first entry of
  \<open>referrals\<close> whose \<open>userId\<close> matches.
\<close>

fun activateFirst :: "objectId \<Rightarrow> referral list \<Rightarrow> referral list" where
  "activateFirst referred [] = []"
| "activateFirst referred (r # rs) =
     (if ref_userId r = referred
      then r\<lparr>ref_isActive := True, ref_subscriptionStatus := RefActive\<rparr> # rs
      else r # activateFirst referred rs)"

definition processReferralReward :: "time \<Rightarrow> users \<Rightarrow> objectId \<Rightarrow> objectId \<Rightarrow> users" where
  "processReferralReward now db referredUserId referrerId =
     (let db1 = (case findById db referrerId of
                   None \<Rightarrow> db
                 | Some u \<Rightarrow>
                     save db referrerId (u\<lparr>referrals := activateFirst referredUserId (referrals u)\<rparr>));
          db2 = updateReferralStats db1 referrerId
      in checkReferralMilestones now db2 referrerId)"

text \<open>
  A concrete referrer with 25 active referrals, so that all three targets are met at
  once, and one referral that is still pending.
\<close>

definition sampleReferrer :: user where
  "sampleReferrer =
     (schemaDefaults 7 ''Ravi'' ''ravi@example.com'')
       \<lparr>referrals :=
          map (\<lambda>i. \<lparr>ref_userId = i, ref_joinedAt = 0, ref_isActive = True,
                     ref_subscriptionStatus = RefActive\<rparr>) [100 ..< 125]
          @ [\<lparr>ref_userId = 99, ref_joinedAt = 0, ref_isActive = False,
              ref_subscriptionStatus = RefPending\<rparr>],
        referralStats := \<lparr>totalReferrals = 26, activeReferrals = 25, totalEarnings = 0\<rparr>\<rparr>"

section \<open>Orders, token transactions and plans (models/Order.js, models/TokenTransaction.js)\<close>

datatype pay_status = Pending | Completed | Failed | Cancelled

datatype txn_status = TxPending | TxCompleted | TxFailed | TxRefunded

text \<open>Prices are whole rupees; the gateways are given paisa, \<open>price * 100\<close>.\<close>

record plan =
  plan_id :: objectId
  plan_name :: string
  plan_price :: int
  durationDays :: int
  plan_dailyTokens :: int
  plan_bonusTokens :: int
  providerPlanId :: "string option"

text \<open>
  Only paths of the schemas are fields here: an assignment to any other property of a
  document (\<open>order.paymentId\<close>, \<open>transaction.providerOrderId\<close>) is not stored.
\<close>

record order =
  order_id :: objectId
  clientOrderId :: string
  providerOrderId :: string
  userEmail :: string
  userName :: string
  order_planId :: objectId
  order_userId :: "objectId option"
  order_amount :: int
  order_status :: pay_status
  paymentStatus :: pay_status
  order_referralCode :: "string option"
  order_merchantOrderId :: "string option"
  order_phonePeOrderId :: "string option"
  order_phonePeTransactionId :: "string option"
  order_paymentMode :: "string option"
  order_failureReason :: "string option"
  order_completedAt :: "time option"

record token_package =
  pkg_id :: objectId
  pkg_tokens :: int
  pkg_price :: int

record token_transaction =
  txn_id :: objectId
  txn_userId :: objectId
  txn_packageId :: objectId
  txn_transactionId :: "string option"
  txn_tokens :: int
  txn_amount :: int
  txn_status :: txn_status
  txn_merchantOrderId :: "string option"
  txn_phonePeOrderId :: "string option"
  txn_phonePeTransactionId :: "string option"
  txn_paymentMode :: "string option"
  txn_failureReason :: "string option"
  txn_completedAt :: "time option"

record database =
  db_users :: users
  db_orders :: "order collection"
  db_plans :: "plan collection"
  db_transactions :: "token_transaction collection"
  db_packages :: "token_package collection"

text \<open>The part of an HTTP response the handlers set: status code and JSON body.\<close>

record response =
  res_status :: nat
  res_success :: "bool option"
  res_message :: "string option"
  res_error :: "string option"

definition reply :: "nat \<Rightarrow> bool option \<Rightarrow> string option \<Rightarrow> string option \<Rightarrow> response" where
  "reply code ok msg err =
     \<lparr>res_status = code, res_success = ok, res_message = msg, res_error = err\<rparr>"

text \<open>
  The block every completion handler writes out: a fresh window from \<open>now\<close>, the
  plan's daily quota, the monthly allocation and the legacy \<open>tokens\<close> counter.
\<close>

definition planWindow :: "time \<Rightarrow> plan \<Rightarrow> subscription" where
  "planWindow now pl =
     \<lparr>sub_planId = Some (plan_id pl),
      sub_startDate = Some now,
      sub_endDate = Some (now + durationDays pl * 24 * 60 * 60 * 1000),
      sub_isActive = Some True,
      sub_dailyTokens = plan_dailyTokens pl,
      sub_monthlyAllocation = durationDays pl * plan_dailyTokens pl\<rparr>"

definition planBonus :: "time \<Rightarrow> plan \<Rightarrow> bonus_bucket" where
  "planBonus now pl =
     \<lparr>bonus_current = plan_bonusTokens pl,
      bonus_initial = plan_bonusTokens pl,
      bonus_used = 0,
      bonus_grantedAt = (if plan_bonusTokens pl > 0 then Some now else None)\<rparr>"

section \<open>PhonePe webhooks (services/phonepeService.js, controller/phonepeController.js)\<close>

text \<open>
  \<open>expectedHash\<close> stands for the base64 SHA-256 digest of the configured
  \<open>username:password\<close>. A header that starts with \<open>SHA256 \<close> loses that prefix
  under \<open>replace\<close>, and the rest is compared.
\<close>

definition verifyWebhookSignature :: "string \<Rightarrow> string option \<Rightarrow> bool" where
  "verifyWebhookSignature expectedHash authHeader =
     (case authHeader of
        None \<Rightarrow> False
      | Some h \<Rightarrow>
          if h = [] \<or> take 7 h \<noteq> ''SHA256 '' then False
          else drop 7 h = expectedHash)"

record meta_info =
  udf1 :: "objectId option"
  udf2 :: "string option"

record payment_detail =
  pd_paymentMode :: string
  pd_transactionId :: string

record webhook_payload =
  wp_merchantOrderId :: string
  wp_state :: string
  wp_amount :: int
  wp_metaInfo :: "meta_info option"
  wp_paymentDetails :: "payment_detail list"
  wp_errorInfo :: "string option"

record webhook_body =
  wb_event :: "string option"
  wb_payload :: "webhook_payload option"

record webhook_data =
  wd_event :: string
  wd_merchantOrderId :: string
  wd_state :: string
  wd_amount :: int
  wd_metaInfo :: meta_info
  wd_paymentMode :: "string option"
  wd_transactionId :: "string option"
  wd_errorInfo :: "string option"

record webhook_request =
  rq_authorization :: "string option"
  rq_body :: webhook_body

text \<open>\<open>parseWebhookData\<close> throws on a missing event or payload: \<open>None\<close>.\<close>

definition parseWebhookData :: "webhook_body \<Rightarrow> webhook_data option" where
  "parseWebhookData b =
     (case (wb_event b, wb_payload b) of
        (Some ev, Some p) \<Rightarrow>
          if ev = [] then None
          else Some
            \<lparr>wd_event = ev,
             wd_merchantOrderId = wp_merchantOrderId p,
             wd_state = wp_state p,
             wd_amount = wp_amount p,
             wd_metaInfo =
               (case wp_metaInfo p of
                  None \<Rightarrow> \<lparr>udf1 = None, udf2 = None\<rparr>
                | Some mi \<Rightarrow> mi),
             wd_paymentMode =
               (case wp_paymentDetails p of [] \<Rightarrow> None | d # _ \<Rightarrow> Some (pd_paymentMode d)),
             wd_transactionId =
               (case wp_paymentDetails p of [] \<Rightarrow> None | d # _ \<Rightarrow> Some (pd_transactionId d)),
             wd_errorInfo = wp_errorInfo p\<rparr>
      | _ \<Rightarrow> None)"

text \<open>
  \<open>processSubscriptionWebhook\<close>. The order is loaded with its user and plan
  populated. A plan that no longer exists makes \<open>plan.durationDays\<close> throw before
  anything is saved; the caller logs the error.
\<close>

definition processSubscriptionWebhook :: "time \<Rightarrow> database \<Rightarrow> webhook_data \<Rightarrow> database" where
  "processSubscriptionWebhook now db wd =
     (case udf1 (wd_metaInfo wd) of
        None \<Rightarrow> db
      | Some orderId \<Rightarrow>
          (case findById (db_orders db) orderId of
             None \<Rightarrow> db
           | Some ord \<Rightarrow>
               if wd_state wd = ''COMPLETED'' then
                 let ord1 = ord\<lparr>paymentStatus := Completed,
                                order_phonePeTransactionId := wd_transactionId wd,
                                order_paymentMode := wd_paymentMode wd,
                                order_completedAt := Some now\<rparr>;
                     populatedUser =
                       (case order_userId ord of
                          None \<Rightarrow> None
                        | Some uid \<Rightarrow> map_option (Pair uid) (findById (db_users db) uid))
                 in (case populatedUser of
                       None \<Rightarrow> db\<lparr>db_orders := save (db_orders db) orderId ord1\<rparr>
                     | Some (uid, u) \<Rightarrow>
                         (case findById (db_plans db) (order_planId ord) of
                            None \<Rightarrow> db
                          | Some pl \<Rightarrow>
                              let u1 = u\<lparr>subscription := planWindow now pl,
                                         tokens := plan_dailyTokens pl,
                                         monthlyTokensTotal := durationDays pl * plan_dailyTokens pl,
                                         monthlyTokensRemaining :=
                                           durationDays pl * plan_dailyTokens pl\<rparr>
                              in db\<lparr>db_users := save (db_users db) uid u1,
                                    db_orders := save (db_orders db) orderId ord1\<rparr>))
               else if wd_state wd = ''FAILED'' then
                 db\<lparr>db_orders := save (db_orders db) orderId
                      (ord\<lparr>paymentStatus := Failed,
                           order_failureReason :=
                             Some (case wd_errorInfo wd of
                                     None \<Rightarrow> ''Payment failed''
                                   | Some msg \<Rightarrow> if msg = [] then ''Payment failed'' else msg)\<rparr>)\<rparr>
               else db))"

definition processTokenWebhook :: "time \<Rightarrow> database \<Rightarrow> webhook_data \<Rightarrow> database" where
  "processTokenWebhook now db wd =
     (case udf1 (wd_metaInfo wd) of
        None \<Rightarrow> db
      | Some transactionIdFromMeta \<Rightarrow>
          (case findById (db_transactions db) transactionIdFromMeta of
             None \<Rightarrow> db
           | Some t \<Rightarrow>
               if wd_state wd = ''COMPLETED'' then
                 let t1 = t\<lparr>txn_status := TxCompleted,
                            txn_phonePeTransactionId := wd_transactionId wd,
                            txn_paymentMode := wd_paymentMode wd,
                            txn_completedAt := Some now\<rparr>;
                     users1 =
                       (case findById (db_users db) (txn_userId t) of
                          None \<Rightarrow> db_users db
                        | Some u \<Rightarrow>
                            save (db_users db) (txn_userId t) (u\<lparr>tokens := tokens u + txn_tokens t\<rparr>))
                 in db\<lparr>db_users := users1,
                       db_transactions := save (db_transactions db) transactionIdFromMeta t1\<rparr>
               else if wd_state wd = ''FAILED'' then
                 db\<lparr>db_transactions := save (db_transactions db) transactionIdFromMeta
                      (t\<lparr>txn_status := TxFailed,
                         txn_failureReason :=
                           Some (case wd_errorInfo wd of
                                   None \<Rightarrow> ''Payment failed''
                                 | Some msg \<Rightarrow> if msg = [] then ''Payment failed'' else msg)\<rparr>)\<rparr>
               else db))"

definition processWebhook :: "time \<Rightarrow> database \<Rightarrow> webhook_data \<Rightarrow> database" where
  "processWebhook now db wd =
     (let paymentType = udf2 (wd_metaInfo wd) in
      if paymentType = Some ''subscription'' then processSubscriptionWebhook now db wd
      else if paymentType = Some ''token_purchase'' then processTokenWebhook now db wd
      else db)"

text \<open>
  \<open>handleWebhook\<close> answers first and processes afterwards; the store returned is the
  one the asynchronous processing leaves.
\<close>

definition handleWebhook ::
  "string \<Rightarrow> time \<Rightarrow> database \<Rightarrow> webhook_request \<Rightarrow> response \<times> database" where
  "handleWebhook expectedHash now db req =
     (if \<not> verifyWebhookSignature expectedHash (rq_authorization req)
      then (reply 401 (Some False) None (Some ''Invalid signature''), db)
      else
        (case parseWebhookData (rq_body req) of
           None \<Rightarrow> (reply 200 (Some False) None (Some ''Webhook processing failed''), db)
         | Some webhookData \<Rightarrow>
             (reply 200 (Some True) None None, processWebhook now db webhookData)))"

section \<open>Razorpay verification (services/razorpayService.js, controller/razorpayController.js)\<close>

text \<open>
  \<open>hmacSha256\<close> stands for the hex HMAC-SHA256 digest keyed with
  \<open>RAZORPAY_KEY_SECRET\<close>. The source holds two copies of the controller. The one at
  \<open>controller/razorpayController.js\<close>, which \<open>route/razorpay.js\<close> imports, is
  modelled under the source's names. The other copy, which also grants the plan's
  bonus tokens, processes referral rewards and logs the user in, is modelled under the
  same names with the suffix \<open>_autoLogin\<close>.
\<close>

definition verifyPaymentSignature ::
  "(string \<Rightarrow> string) \<Rightarrow> string \<Rightarrow> string \<Rightarrow> string \<Rightarrow> bool" where
  "verifyPaymentSignature hmacSha256 orderId paymentId signature =
     (hmacSha256 (orderId @ ''|'' @ paymentId) = signature)"

record razorpay_request =
  rz_order_id :: string
  rz_payment_id :: string
  rz_signature :: string
  rz_ref :: objectId

text \<open>ASCII case conversion for e-mail addresses and referral codes.\<close>

definition lowerChar :: "char \<Rightarrow> char" where
  "lowerChar c =
     (case map_of (zip ''ABCDEFGHIJKLMNOPQRSTUVWXYZ'' ''abcdefghijklmnopqrstuvwxyz'') c of
        None \<Rightarrow> c
      | Some l \<Rightarrow> l)"

definition upperChar :: "char \<Rightarrow> char" where
  "upperChar c =
     (case map_of (zip ''abcdefghijklmnopqrstuvwxyz'' ''ABCDEFGHIJKLMNOPQRSTUVWXYZ'') c of
        None \<Rightarrow> c
      | Some l \<Rightarrow> l)"

definition toLowerCase :: "string \<Rightarrow> string" where
  "toLowerCase s = map lowerChar s"

definition toUpperCase :: "string \<Rightarrow> string" where
  "toUpperCase s = map upperChar s"

definition validateReferralCode :: "time \<Rightarrow> users \<Rightarrow> string option \<Rightarrow> user option" where
  "validateReferralCode now us code =
     (case code of
        None \<Rightarrow> None
      | Some c \<Rightarrow>
          if c = [] then None
          else findOne (\<lambda>u. referralCode u = Some (toUpperCase c)
                             \<and> (case sub_endDate (subscription u) of
                                   None \<Rightarrow> False
                                 | Some e \<Rightarrow> e \<ge> now)) us)"

text \<open>
  The loop that draws random referral codes until one is unused, over the list of
  codes the random source yields; \<open>None\<close> when every draw is taken, in which case the
  loop has not ended.
\<close>

fun pickReferralCode :: "users \<Rightarrow> string list \<Rightarrow> string option" where
  "pickReferralCode us [] = None"
| "pickReferralCode us (c # cs) =
     (if findOne (\<lambda>u. referralCode u = Some c) us = None then Some c
      else pickReferralCode us cs)"

subsection \<open>The controller at controller/razorpayController.js\<close>

text \<open>
  \<open>userFromOrder\<close> is the document \<open>new User({...})\<close> builds for a guest checkout
  and \<open>renewSubscription\<close> the block "re-apply subscription update for existing
  users/renewals"; neither writes a bucket. \<open>completeVerification\<close> is the handler
  from \<open>if (user)\<close> on. A document that was just saved is no longer \<open>isNew\<close>, so
  the renewal block runs for every user that was found or created, and
  \<open>order.userId\<close> is set in each of those cases. With no plan the block throws before
  anything is saved; with no user the order is saved and the handler answers success.
  A new user's referrer gets the referral entry and \<open>updateReferralStats\<close>.
\<close>

definition userFromOrder ::
  "time \<Rightarrow> objectId \<Rightarrow> order \<Rightarrow> plan \<Rightarrow> string \<Rightarrow> user option \<Rightarrow> user" where
  "userFromOrder now freshId ord pl newReferralCode referrer =
     (schemaDefaults freshId (userName ord) (toLowerCase (userEmail ord)))
       \<lparr>tokens := plan_dailyTokens pl,
        tokensUsedTotal := 0,
        monthlyTokensTotal := durationDays pl * plan_dailyTokens pl,
        monthlyTokensUsed := 0,
        monthlyTokensRemaining := durationDays pl * plan_dailyTokens pl,
        referralCode := Some newReferralCode,
        referredBy := map_option user_id referrer,
        referralStats := \<lparr>totalReferrals = 0, activeReferrals = 0, totalEarnings = 0\<rparr>,
        subscription := planWindow now pl\<rparr>"

definition renewSubscription :: "time \<Rightarrow> plan \<Rightarrow> user \<Rightarrow> user" where
  "renewSubscription now pl u =
     u\<lparr>subscription := planWindow now pl,
       tokens := plan_dailyTokens pl,
       monthlyTokensTotal := durationDays pl * plan_dailyTokens pl,
       monthlyTokensRemaining := durationDays pl * plan_dailyTokens pl\<rparr>"

definition completeVerification ::
  "time \<Rightarrow> database \<Rightarrow> objectId \<Rightarrow> order \<Rightarrow> (objectId \<times> user) option
     \<Rightarrow> response \<times> database" where
  "completeVerification now db orderId ord found =
     (case found of
        None \<Rightarrow>
          (reply 200 (Some True) (Some ''Payment verified and subscription activated'') None,
           db\<lparr>db_orders := save (db_orders db) orderId ord\<rparr>)
      | Some (uid, u) \<Rightarrow>
          (case findById (db_plans db) (order_planId ord) of
             None \<Rightarrow> (reply 500 (Some False) None (Some ''Verification failed''), db)
           | Some pl \<Rightarrow>
               (reply 200 (Some True)
                  (Some ''Payment verified and subscription activated'') None,
                db\<lparr>db_users := save (db_users db) uid (renewSubscription now pl u),
                   db_orders := save (db_orders db) orderId ord\<rparr>)))"

definition verifySubscriptionPayment ::
  "(string \<Rightarrow> string) \<Rightarrow> time \<Rightarrow> objectId \<Rightarrow> string list \<Rightarrow> database \<Rightarrow> razorpay_request
     \<Rightarrow> (response \<times> database) option" where
  "verifySubscriptionPayment hmacSha256 now freshId draws db req =
     (if \<not> verifyPaymentSignature hmacSha256 (rz_order_id req) (rz_payment_id req)
             (rz_signature req)
      then Some (reply 400 (Some False) None (Some ''Invalid payment signature''), db)
      else
        (case findById (db_orders db) (rz_ref req) of
           None \<Rightarrow> Some (reply 404 (Some False) None (Some ''Order not found''), db)
         | Some ord \<Rightarrow>
             if paymentStatus ord = Completed
             then Some (reply 200 (Some True) (Some ''Already processed'') None, db)
             else
               let ord1 = ord\<lparr>paymentStatus := Completed,
                              providerOrderId := rz_order_id req,
                              order_completedAt := Some now\<rparr>
               in (case order_userId ord of
                     Some uid \<Rightarrow>
                       Some (completeVerification now db (rz_ref req) ord1
                               (map_option (Pair uid) (findById (db_users db) uid)))
                   | None \<Rightarrow>
                       (case findOne (\<lambda>u. email u = toLowerCase (userEmail ord)) (db_users db) of
                          Some u \<Rightarrow>
                            Some (completeVerification now db (rz_ref req)
                                    (ord1\<lparr>order_userId := Some (user_id u)\<rparr>)
                                    (Some (user_id u, u)))
                        | None \<Rightarrow>
                            let referrer =
                                  validateReferralCode now (db_users db) (order_referralCode ord)
                            in (case pickReferralCode (db_users db) draws of
                                  None \<Rightarrow> None
                                | Some newReferralCode \<Rightarrow>
                                    (case findById (db_plans db) (order_planId ord) of
                                       None \<Rightarrow>
                                         Some (reply 500 (Some False) None
                                                 (Some ''Verification failed''), db)
                                     | Some pl \<Rightarrow>
                                         let u = userFromOrder now freshId ord pl
                                                   newReferralCode referrer;
                                             users1 = save (db_users db) freshId u;
                                             users2 =
                                               (case referrer of
                                                  None \<Rightarrow> users1
                                                | Some r \<Rightarrow>
                                                    updateReferralStats
                                                      (save users1 (user_id r)
                                                         (r\<lparr>referrals := referrals r @
                                                              [\<lparr>ref_userId = freshId,
                                                                ref_joinedAt = now,
                                                                ref_isActive = False,
                                                                ref_subscriptionStatus =
                                                                  RefActive\<rparr>]\<rparr>))
                                                      (user_id r))
                                         in Some (completeVerification now
                                                    (db\<lparr>db_users := users2\<rparr>) (rz_ref req)
                                                    (ord1\<lparr>order_userId := Some freshId\<rparr>)
                                                    (Some (freshId, u)))))))))"

definition verifyTokenPurchasePayment ::
  "(string \<Rightarrow> string) \<Rightarrow> time \<Rightarrow> database \<Rightarrow> razorpay_request \<Rightarrow> response \<times> database" where
  "verifyTokenPurchasePayment hmacSha256 now db req =
     (if \<not> verifyPaymentSignature hmacSha256 (rz_order_id req) (rz_payment_id req)
             (rz_signature req)
      then (reply 400 (Some False) None (Some ''Invalid signature''), db)
      else
        (case findById (db_transactions db) (rz_ref req) of
           None \<Rightarrow> (reply 404 (Some False) None (Some ''Transaction not found''), db)
         | Some t \<Rightarrow>
             if txn_status t = TxCompleted
             then (reply 200 (Some True) (Some ''Already processed'') None, db)
             else
               let t1 = t\<lparr>txn_status := TxCompleted, txn_completedAt := Some now\<rparr>;
                   users1 =
                     (case findById (db_users db) (txn_userId t) of
                        None \<Rightarrow> db_users db
                      | Some u \<Rightarrow>
                          save (db_users db) (txn_userId t)
                            (u\<lparr>tokens := tokens u + txn_tokens t\<rparr>))
               in (reply 200 (Some True) (Some ''Payment verified and tokens added'') None,
                   db\<lparr>db_users := users1,
                      db_transactions := save (db_transactions db) (rz_ref req) t1\<rparr>)))"

subsection \<open>The controller copy with auto-login\<close>

text \<open>
  This copy sets \<open>bonusTokens\<close> from the plan in both the new document and the
  renewal block, calls \<open>processReferralReward\<close> for a new user's referrer and for a
  renewing user's \<open>referredBy\<close>, and after saving the order creates a session from
  \<open>user._id\<close>, which throws when there is no user. Its token verification also
  credits the purchased bucket. Session and cookie are outside this model.
\<close>

definition userFromOrder_autoLogin ::
  "time \<Rightarrow> objectId \<Rightarrow> order \<Rightarrow> plan \<Rightarrow> string \<Rightarrow> user option \<Rightarrow> user" where
  "userFromOrder_autoLogin now freshId ord pl newReferralCode referrer =
     (schemaDefaults freshId (userName ord) (toLowerCase (userEmail ord)))
       \<lparr>tokens := plan_dailyTokens pl,
        tokensUsedTotal := 0,
        monthlyTokensTotal := durationDays pl * plan_dailyTokens pl,
        monthlyTokensUsed := 0,
        monthlyTokensRemaining := durationDays pl * plan_dailyTokens pl,
        bonusTokens := planBonus now pl,
        referralCode := Some newReferralCode,
        referredBy := map_option user_id referrer,
        referralStats := \<lparr>totalReferrals = 0, activeReferrals = 0, totalEarnings = 0\<rparr>,
        subscription := planWindow now pl\<rparr>"

definition renewSubscription_autoLogin :: "time \<Rightarrow> plan \<Rightarrow> user \<Rightarrow> user" where
  "renewSubscription_autoLogin now pl u =
     u\<lparr>subscription := planWindow now pl,
       tokens := plan_dailyTokens pl,
       monthlyTokensTotal := durationDays pl * plan_dailyTokens pl,
       monthlyTokensRemaining := durationDays pl * plan_dailyTokens pl,
       bonusTokens := planBonus now pl\<rparr>"

definition completeVerification_autoLogin ::
  "time \<Rightarrow> database \<Rightarrow> objectId \<Rightarrow> order \<Rightarrow> (objectId \<times> user) option
     \<Rightarrow> response \<times> database" where
  "completeVerification_autoLogin now db orderId ord found =
     (case found of
        None \<Rightarrow>
          (reply 500 (Some False) None (Some ''Verification failed''),
           db\<lparr>db_orders := save (db_orders db) orderId ord\<rparr>)
      | Some (uid, u) \<Rightarrow>
          (case findById (db_plans db) (order_planId ord) of
             None \<Rightarrow> (reply 500 (Some False) None (Some ''Verification failed''), db)
           | Some pl \<Rightarrow>
               let u1 = renewSubscription_autoLogin now pl u;
                   users1 = save (db_users db) uid u1;
                   users2 = (case referredBy u1 of
                               None \<Rightarrow> users1
                             | Some r \<Rightarrow> processReferralReward now users1 uid r)
               in (reply 200 (Some True)
                     (Some ''Payment verified and subscription activated'') None,
                   db\<lparr>db_users := users2,
                      db_orders := save (db_orders db) orderId ord\<rparr>)))"

definition verifySubscriptionPayment_autoLogin ::
  "(string \<Rightarrow> string) \<Rightarrow> time \<Rightarrow> objectId \<Rightarrow> string list \<Rightarrow> database \<Rightarrow> razorpay_request
     \<Rightarrow> (response \<times> database) option" where
  "verifySubscriptionPayment_autoLogin hmacSha256 now freshId draws db req =
     (if \<not> verifyPaymentSignature hmacSha256 (rz_order_id req) (rz_payment_id req)
             (rz_signature req)
      then Some (reply 400 (Some False) None (Some ''Invalid payment signature''), db)
      else
        (case findById (db_orders db) (rz_ref req) of
           None \<Rightarrow> Some (reply 404 (Some False) None (Some ''Order not found''), db)
         | Some ord \<Rightarrow>
             if paymentStatus ord = Completed
             then Some (reply 200 (Some True) (Some ''Already processed'') None, db)
             else
               let ord1 = ord\<lparr>paymentStatus := Completed,
                              providerOrderId := rz_order_id req,
                              order_completedAt := Some now\<rparr>
               in (case order_userId ord of
                     Some uid \<Rightarrow>
                       Some (completeVerification_autoLogin now db (rz_ref req) ord1
                               (map_option (Pair uid) (findById (db_users db) uid)))
                   | None \<Rightarrow>
                       (case findOne (\<lambda>u. email u = toLowerCase (userEmail ord)) (db_users db) of
                          Some u \<Rightarrow>
                            Some (completeVerification_autoLogin now db (rz_ref req)
                                    (ord1\<lparr>order_userId := Some (user_id u)\<rparr>)
                                    (Some (user_id u, u)))
                        | None \<Rightarrow>
                            let referrer =
                                  validateReferralCode now (db_users db) (order_referralCode ord)
                            in (case pickReferralCode (db_users db) draws of
                                  None \<Rightarrow> None
                                | Some newReferralCode \<Rightarrow>
                                    (case findById (db_plans db) (order_planId ord) of
                                       None \<Rightarrow>
                                         Some (reply 500 (Some False) None
                                                 (Some ''Verification failed''), db)
                                     | Some pl \<Rightarrow>
                                         let u = userFromOrder_autoLogin now freshId ord pl
                                                   newReferralCode referrer;
                                             users1 = save (db_users db) freshId u;
                                             users2 =
                                               (case referrer of
                                                  None \<Rightarrow> users1
                                                | Some r \<Rightarrow>
                                                    processReferralReward now
                                                      (save users1 (user_id r)
                                                         (r\<lparr>referrals := referrals r @
                                                              [\<lparr>ref_userId = freshId,
                                                                ref_joinedAt = now,
                                                                ref_isActive = False,
                                                                ref_subscriptionStatus =
                                                                  RefActive\<rparr>]\<rparr>))
                                                      freshId (user_id r))
                                         in Some (completeVerification_autoLogin now
                                                    (db\<lparr>db_users := users2\<rparr>) (rz_ref req)
                                                    (ord1\<lparr>order_userId := Some freshId\<rparr>)
                                                    (Some (freshId, u)))))))))"

definition verifyTokenPurchasePayment_autoLogin ::
  "(string \<Rightarrow> string) \<Rightarrow> time \<Rightarrow> database \<Rightarrow> razorpay_request \<Rightarrow> response \<times> database" where
  "verifyTokenPurchasePayment_autoLogin hmacSha256 now db req =
     (if \<not> verifyPaymentSignature hmacSha256 (rz_order_id req) (rz_payment_id req)
             (rz_signature req)
      then (reply 400 (Some False) None (Some ''Invalid signature''), db)
      else
        (case findById (db_transactions db) (rz_ref req) of
           None \<Rightarrow> (reply 404 (Some False) None (Some ''Transaction not found''), db)
         | Some t \<Rightarrow>
             if txn_status t = TxCompleted
             then (reply 200 (Some True) (Some ''Already processed'') None, db)
             else
               let t1 = t\<lparr>txn_status := TxCompleted, txn_completedAt := Some now\<rparr>;
                   users1 =
                     (case findById (db_users db) (txn_userId t) of
                        None \<Rightarrow> db_users db
                      | Some u \<Rightarrow>
                          save (db_users db) (txn_userId t)
                            (u\<lparr>tokens := tokens u + txn_tokens t,
                               purchasedTokens := (purchasedTokens u)
                                 \<lparr>purchased_current :=
                                    purchased_current (purchasedTokens u) + txn_tokens t,
                                  purchased_total :=
                                    purchased_total (purchasedTokens u) + txn_tokens t,
                                  purchased_lastPurchasedAt := Some now\<rparr>\<rparr>))
               in (reply 200 (Some True) (Some ''Payment verified and tokens added'') None,
                   db\<lparr>db_users := users1,
                      db_transactions := save (db_transactions db) (rz_ref req) t1\<rparr>)))"

section \<open>Checkout webhook (controller/paymentController.js)\<close>

text \<open>
  The signature is checked only in production, only when the header is present and is
  not the development dummy; \<open>hmacSha256\<close> stands for the hex HMAC-SHA256 digest of
  the raw body under \<open>WEBHOOK_SECRET\<close>.
\<close>

record checkout_event =
  ev_type :: string
  ev_order_id :: string
  ev_clientOrderId :: string
  ev_email :: string
  ev_name :: string
  ev_orderType :: "string option"

record checkout_request =
  cr_signature :: "string option"
  cr_rawBody :: string
  cr_event :: checkout_event

text \<open>
  The renewal branch assigns a subscription object without \<open>isActive\<close>; the
  assignment replaces the nested object, so the stored object has no flag afterwards.
  A new document gets the schema's default for it.
\<close>

definition renewFromCheckout :: "time \<Rightarrow> plan \<Rightarrow> user \<Rightarrow> user" where
  "renewFromCheckout now pl u =
     u\<lparr>tokens := plan_dailyTokens pl,
       tokensUsedToday := 0,
       monthlyTokensTotal := durationDays pl * plan_dailyTokens pl,
       monthlyTokensUsed := 0,
       monthlyTokensRemaining := durationDays pl * plan_dailyTokens pl,
       subscription := (planWindow now pl)\<lparr>sub_isActive := None\<rparr>\<rparr>"

definition userFromCheckout :: "time \<Rightarrow> objectId \<Rightarrow> order \<Rightarrow> plan \<Rightarrow> checkout_event \<Rightarrow> user" where
  "userFromCheckout now freshId ord pl ev =
     (schemaDefaults freshId (if ev_name ev = [] then userName ord else ev_name ev)
        (toLowerCase (ev_email ev)))
       \<lparr>tokens := plan_dailyTokens pl,
        tokensUsedTotal := 0,
        tokensUsedToday := 0,
        monthlyTokensTotal := durationDays pl * plan_dailyTokens pl,
        monthlyTokensUsed := 0,
        monthlyTokensRemaining := durationDays pl * plan_dailyTokens pl,
        subscription := planWindow now pl\<rparr>"

definition checkoutSignatureRejected ::
  "bool \<Rightarrow> (string \<Rightarrow> string) \<Rightarrow> checkout_request \<Rightarrow> bool" where
  "checkoutSignatureRejected production hmacSha256 req =
     (production
      \<and> (case cr_signature req of
            None \<Rightarrow> False
          | Some s \<Rightarrow> s \<noteq> [] \<and> s \<noteq> ''dummy-signature-dev''
                       \<and> hmacSha256 (cr_rawBody req) \<noteq> s))"

definition handleWebhook_checkout ::
  "bool \<Rightarrow> (string \<Rightarrow> string) \<Rightarrow> time \<Rightarrow> objectId \<Rightarrow> database \<Rightarrow> checkout_request
     \<Rightarrow> response \<times> database" where
  "handleWebhook_checkout production hmacSha256 now freshId db req =
     (let ev = cr_event req in
      if checkoutSignatureRejected production hmacSha256 req
      then (reply 400 None None (Some ''Invalid signature''), db)
      else if ev_type ev \<noteq> ''payment.success''
      then (reply 200 None (Some ''Event received'') None, db)
      else if ev_orderType ev = Some ''token''
      then (reply 200 None (Some ''Token purchase handled by separate webhook'') None, db)
      else
        (case (case findOne (\<lambda>d. clientOrderId d = ev_clientOrderId ev) (db_orders db) of
                 Some d \<Rightarrow> Some d
               | None \<Rightarrow> findOne (\<lambda>d. providerOrderId d = ev_order_id ev) (db_orders db))
         of
           None \<Rightarrow> (reply 404 None None (Some ''Order not found''), db)
         | Some ord \<Rightarrow>
             if order_status ord = Completed
             then (reply 200 None (Some ''Already processed'') None, db)
             else
               let orders1 = save (db_orders db) (order_id ord)
                               (ord\<lparr>order_status := Completed,
                                    providerOrderId := ev_order_id ev\<rparr>)
               in (case findById (db_plans db) (order_planId ord) of
                     None \<Rightarrow>
                       (reply 404 None None (Some ''Plan not found''), db\<lparr>db_orders := orders1\<rparr>)
                   | Some pl \<Rightarrow>
                       let u1 = (case findOne (\<lambda>u. email u = toLowerCase (ev_email ev))
                                        (db_users db) of
                                   None \<Rightarrow> userFromCheckout now freshId ord pl ev
                                 | Some u \<Rightarrow> renewFromCheckout now pl u);
                           users1 = save (db_users db) (user_id u1) u1;
                           users2 = (case referredBy u1 of
                                       None \<Rightarrow> users1
                                     | Some r \<Rightarrow> processReferralReward now users1 (user_id u1) r)
                       in (reply 200 None (Some ''Payment processed successfully'') None,
                           db\<lparr>db_users := users2, db_orders := orders1\<rparr>))))"

section \<open>Purchase initiation (controller/orderController.js and the gateway controllers)\<close>

text \<open>
  A gateway call either throws (\<open>Inl\<close>, with the message) or returns the gateway's
  order id (\<open>Inr\<close>). In a request body an absent field and the empty string are both
  falsy and are both the empty string here. \<open>emailRegex\<close> stands for the format test,
  \<open>castObjectId\<close> for \<open>ObjectId.isValid\<close> followed by the cast. \<open>Order.create\<close>
  validates the schema: a \<open>userName\<close> or \<open>userEmail\<close> that is empty after trimming
  is refused, nothing is stored and the outer \<open>catch\<close> answers.
\<close>

record create_order_request =
  co_planId :: string
  co_name :: string
  co_email :: string
  co_referralCode :: string

definition isSpace :: "char \<Rightarrow> bool" where
  "isSpace c = (c \<in> {CHR '' '', CHR 0x09, CHR 0x0A, CHR 0x0D})"

definition trim :: "string \<Rightarrow> string" where
  "trim s = rev (dropWhile isSpace (rev (dropWhile isSpace s)))"

definition createOrder ::
  "(string \<Rightarrow> bool) \<Rightarrow> (string \<Rightarrow> objectId option) \<Rightarrow> (int \<Rightarrow> string \<Rightarrow> string + string)
     \<Rightarrow> objectId \<Rightarrow> string \<Rightarrow> database \<Rightarrow> create_order_request \<Rightarrow> response \<times> database" where
  "createOrder emailRegex castObjectId razorpayCreate freshId freshClientId db req =
     (if co_planId req = [] \<or> co_name req = [] \<or> co_email req = []
      then (reply 400 None None (Some ''Missing required fields: planId, name, email''), db)
      else if \<not> emailRegex (co_email req)
      then (reply 400 None None (Some ''Invalid email format''), db)
      else
        (case (case findOne (\<lambda>p. providerPlanId p = Some (co_planId req)) (db_plans db) of
                 Some p \<Rightarrow> Some p
               | None \<Rightarrow>
                   (case castObjectId (co_planId req) of
                      None \<Rightarrow> None
                    | Some i \<Rightarrow> findById (db_plans db) i))
         of
           None \<Rightarrow> (reply 400 None None (Some ''Invalid plan''), db)
         | Some pl \<Rightarrow>
             let found = findOne (\<lambda>u. email u = toLowerCase (co_email req)) (db_users db);
                 ord = \<lparr>order_id = freshId,
                        clientOrderId = freshClientId,
                        providerOrderId = ''pending_'' @ freshClientId,
                        userEmail = trim (toLowerCase (co_email req)),
                        userName = trim (co_name req),
                        order_planId = plan_id pl,
                        order_userId = map_option user_id found,
                        order_amount = plan_price pl,
                        order_status = Pending,
                        paymentStatus = Pending,
                        order_referralCode =
                          (if co_referralCode req = [] then None else Some (co_referralCode req)),
                        order_merchantOrderId = None,
                        order_phonePeOrderId = None,
                        order_phonePeTransactionId = None,
                        order_paymentMode = None,
                        order_failureReason = None,
                        order_completedAt = None\<rparr>;
                 orders1 = save (db_orders db) freshId ord
             in if userName ord = [] \<or> userEmail ord = []
                then (reply 500 (Some False) None (Some ''Internal server error''), db)
                else
                (case razorpayCreate (plan_price pl * 100) (''rcpt_sub_'' @ showNat freshId) of
                   Inr razorpayOrderId \<Rightarrow>
                     (reply 200 (Some True) None None,
                      db\<lparr>db_orders := save orders1 freshId
                           (ord\<lparr>providerOrderId := razorpayOrderId,
                                order_merchantOrderId := Some razorpayOrderId\<rparr>)\<rparr>)
                 | Inl paymentError \<Rightarrow>
                     (reply 500 (Some False) None
                        (Some ''Failed to create payment. Please try again.''),
                      db\<lparr>db_orders := findByIdAndDelete orders1 freshId\<rparr>))))"

text \<open>
  Both token flows build a pending \<open>TokenTransaction\<close> and save it before calling
  the gateway. Saving validates the schema's \<open>tokens >= 1\<close> and \<open>amount >= 0\<close>;
  \<open>validationMessage\<close> stands for the text of the validation error. The Razorpay
  flow assigns the gateway's order id to \<open>providerOrderId\<close>, which is no path of the
  schema, so its second save stores the same document.
\<close>

record token_order_request =
  tr_packageId :: "objectId option"
  tr_userId :: "objectId option"

definition pendingTransaction ::
  "objectId \<Rightarrow> objectId \<Rightarrow> token_package \<Rightarrow> string option \<Rightarrow> token_transaction" where
  "pendingTransaction freshId uid pkg tag =
     \<lparr>txn_id = freshId, txn_userId = uid, txn_packageId = pkg_id pkg,
      txn_transactionId = tag, txn_tokens = pkg_tokens pkg, txn_amount = pkg_price pkg,
      txn_status = TxPending, txn_merchantOrderId = None, txn_phonePeOrderId = None,
      txn_phonePeTransactionId = None, txn_paymentMode = None,
      txn_failureReason = None, txn_completedAt = None\<rparr>"

definition txnValid :: "token_transaction \<Rightarrow> bool" where
  "txnValid t = (txn_tokens t \<ge> 1 \<and> txn_amount t \<ge> 0)"

definition createTokenOrder ::
  "(int \<Rightarrow> string \<Rightarrow> string + string) \<Rightarrow> objectId \<Rightarrow> string \<Rightarrow> database
     \<Rightarrow> token_order_request \<Rightarrow> response \<times> database" where
  "createTokenOrder razorpayCreate freshId tag db req =
     (case (case tr_packageId req of None \<Rightarrow> None | Some i \<Rightarrow> findById (db_packages db) i) of
        None \<Rightarrow> (reply 404 None None (Some ''Package not found''), db)
      | Some pkg \<Rightarrow>
          (case (case tr_userId req of None \<Rightarrow> None
                 | Some i \<Rightarrow> map_option (Pair i) (findById (db_users db) i)) of
             None \<Rightarrow> (reply 404 None None (Some ''User not found''), db)
           | Some (uid, u) \<Rightarrow>
               let t = pendingTransaction freshId uid pkg (Some tag) in
               if \<not> txnValid t
               then (reply 500 (Some False) None (Some ''Failed to create order''), db)
               else
                 let txns1 = save (db_transactions db) freshId t in
                 (case razorpayCreate (pkg_price pkg * 100) (''rcpt_token_'' @ showNat freshId) of
                    Inr razorpayOrderId \<Rightarrow>
                      (reply 200 (Some True) None None,
                       db\<lparr>db_transactions := save txns1 freshId t\<rparr>)
                  | Inl err \<Rightarrow>
                      (reply 500 (Some False) None (Some ''Failed to create order''),
                       db\<lparr>db_transactions := txns1\<rparr>))))"

text \<open>
  \<open>phonepeService.createPayment\<close>: the auth token is fetched first, then the fields
  are validated, then the gateway is called; every failure is rethrown with a prefix.
  The three bytes in the amount message are the rupee sign in UTF-8.
\<close>

definition createPayment ::
  "string + string \<Rightarrow> (string \<Rightarrow> int \<Rightarrow> string + string) \<Rightarrow> string \<Rightarrow> int \<Rightarrow> string + string" where
  "createPayment authToken phonepeApi merchantOrderId amount =
     (case (case authToken of
              Inl e \<Rightarrow> Inl e
            | Inr token \<Rightarrow>
                if merchantOrderId = [] then Inl ''merchantOrderId is required''
                else if amount < 100
                then Inl (''amount must be at least 100 paisa ('' @
                          [CHR 0xE2, CHR 0x82, CHR 0xB9] @ ''1)'')
                else phonepeApi merchantOrderId amount)
      of Inl e \<Rightarrow> Inl (''Failed to create PhonePe payment: '' @ e)
       | Inr orderId \<Rightarrow> Inr orderId)"

definition createTokenPayment ::
  "(token_transaction \<Rightarrow> string) \<Rightarrow> string + string \<Rightarrow> (string \<Rightarrow> int \<Rightarrow> string + string)
     \<Rightarrow> objectId \<Rightarrow> string \<Rightarrow> database \<Rightarrow> token_order_request \<Rightarrow> response \<times> database" where
  "createTokenPayment validationMessage authToken phonepeApi freshId merchantOrderId db req =
     (case (tr_packageId req, tr_userId req) of
        (Some packageId, Some userId) \<Rightarrow>
          (case findById (db_packages db) packageId of
             None \<Rightarrow> (reply 404 (Some False) None (Some ''Token package not found''), db)
           | Some pkg \<Rightarrow>
               (case findById (db_users db) userId of
                  None \<Rightarrow> (reply 404 (Some False) None (Some ''User not found''), db)
                | Some u \<Rightarrow>
                    let t = pendingTransaction freshId userId pkg None in
                    if \<not> txnValid t
                    then (reply 500 (Some False) None (Some (validationMessage t)), db)
                    else
                      let txns1 = save (db_transactions db) freshId t in
                      (case createPayment authToken phonepeApi merchantOrderId
                              (pkg_price pkg * 100) of
                         Inr phonePeOrderId \<Rightarrow>
                           (reply 200 (Some True) None None,
                            db\<lparr>db_transactions := save txns1 freshId
                                 (t\<lparr>txn_merchantOrderId := Some merchantOrderId,
                                    txn_phonePeOrderId := Some phonePeOrderId\<rparr>)\<rparr>)
                       | Inl msg \<Rightarrow>
                           (reply 500 (Some False) None (Some msg),
                            db\<lparr>db_transactions := txns1\<rparr>))))
      | _ \<Rightarrow>
          (reply 400 (Some False) None (Some ''Missing required fields: packageId, userId''), db))"

section \<open>Auxiliary definitions and sample data for the payment proofs\<close>


text \<open>
  Concrete data for the witnesses: the plan of the end-to-end scenario (100 daily
  tokens, 30 days, 500 bonus tokens), a token package, a freshly registered account and
  its pending order.
\<close>

definition samplePlan :: plan where
  "samplePlan =
     \<lparr>plan_id = 3, plan_name = ''Starter'', plan_price = 999, durationDays = 30,
      plan_dailyTokens = 100, plan_bonusTokens = 500, providerPlanId = None\<rparr>"

definition samplePackage :: token_package where
  "samplePackage = \<lparr>pkg_id = 4, pkg_tokens = 50, pkg_price = 49\<rparr>"

definition freshAccount :: user where
  "freshAccount = schemaDefaults 2 ''Bina'' ''bina@example.com''"

definition sampleOrder :: order where
  "sampleOrder =
     \<lparr>order_id = 5, clientOrderId = ''c5'', providerOrderId = ''pending_c5'',
      userEmail = ''bina@example.com'', userName = ''Bina'', order_planId = 3,
      order_userId = Some 2, order_amount = 999, order_status = Pending,
      paymentStatus = Pending, order_referralCode = None, order_merchantOrderId = None,
      order_phonePeOrderId = None,
      order_phonePeTransactionId = None, order_paymentMode = None,
      order_failureReason = None, order_completedAt = None\<rparr>"

definition sampleDb :: database where
  "sampleDb =
     \<lparr>db_users = [(1, sampleAccount), (2, freshAccount)],
      db_orders = [(5, sampleOrder)],
      db_plans = [(3, samplePlan)],
      db_transactions = [(9, pendingTransaction 9 2 samplePackage None)],
      db_packages = [(4, samplePackage)]\<rparr>"

text \<open>
  A signed PhonePe \<open>COMPLETED\<close> webhook for the record \<open>ref\<close> of the given
  payment type, and its delivery twice in a row.
\<close>

definition completedWebhook :: "objectId \<Rightarrow> string \<Rightarrow> webhook_request" where
  "completedWebhook ref kind =
     \<lparr>rq_authorization = Some ''SHA256 c2VjcmV0'',
      rq_body =
        \<lparr>wb_event = Some ''checkout.order.completed'',
         wb_payload = Some
           \<lparr>wp_merchantOrderId = ''M1'', wp_state = ''COMPLETED'', wp_amount = 4900,
            wp_metaInfo = Some \<lparr>udf1 = Some ref, udf2 = Some kind\<rparr>,
            wp_paymentDetails = [\<lparr>pd_paymentMode = ''UPI_QR'', pd_transactionId = ''T1''\<rparr>],
            wp_errorInfo = None\<rparr>\<rparr>\<rparr>"

definition deliverTwice :: "webhook_request \<Rightarrow> (response \<times> database) \<times> (response \<times> database)" where
  "deliverTwice req =
     (let first = handleWebhook ''c2VjcmV0'' 1000 sampleDb req;
          second = handleWebhook ''c2VjcmV0'' 5000 (snd first) req
      in (first, second))"

text \<open>
  A PhonePe webhook whose signature does not verify.
\<close>

definition forgedWebhook :: webhook_request where
  "forgedWebhook = (completedWebhook 9 ''token_purchase'')\<lparr>rq_authorization := Some ''SHA256 Zm9yZ2Vk''\<rparr>"

text \<open>
  An account whose plan ends at time 2000, its renewal order, and a guest order.
\<close>

definition subscriber :: user where
  "subscriber =
     (schemaDefaults 12 ''Dev'' ''dev@example.com'')
       \<lparr>purchasedTokens :=
          \<lparr>purchased_current = 40, purchased_total = 40, purchased_used = 0,
           purchased_lastPurchasedAt = None, purchased_expiresAt = None\<rparr>,
        subscription :=
          \<lparr>sub_planId = Some 3, sub_startDate = Some 0, sub_endDate = Some 2000,
           sub_isActive = Some True, sub_dailyTokens = 100, sub_monthlyAllocation = 3000\<rparr>\<rparr>"

definition renewalOrder :: order where
  "renewalOrder =
     sampleOrder\<lparr>order_id := 15, clientOrderId := ''c15'', providerOrderId := ''pending_c15'',
                 userEmail := ''dev@example.com'', userName := ''Dev'', order_userId := Some 12\<rparr>"

definition guestOrder :: order where
  "guestOrder =
     sampleOrder\<lparr>order_id := 16, clientOrderId := ''c16'', providerOrderId := ''pending_c16'',
                 userEmail := ''eve@example.com'', userName := ''Eve'', order_userId := None\<rparr>"

definition renewalDb :: database where
  "renewalDb =
     \<lparr>db_users = [(2, freshAccount), (12, subscriber)],
      db_orders = [(5, sampleOrder), (15, renewalOrder), (16, guestOrder)],
      db_plans = [(3, samplePlan)],
      db_transactions = [],
      db_packages = [(4, samplePackage)]\<rparr>"

text \<open>
  A Razorpay verification request signed as \<open>hmacSha256\<close> = \<open>\<lambda>t. a1b2\<close> expects.
\<close>

definition signedVerification :: "objectId \<Rightarrow> razorpay_request" where
  "signedVerification ref =
     \<lparr>rz_order_id = ''order_1'', rz_payment_id = ''pay_1'', rz_signature = ''a1b2'', rz_ref = ref\<rparr>"

definition renewalCheckout :: checkout_request where
  "renewalCheckout =
     \<lparr>cr_signature = None, cr_rawBody = ''{}'',
      cr_event = \<lparr>ev_type = ''payment.success'', ev_order_id = ''p15'', ev_clientOrderId = ''c15'',
                  ev_email = ''Dev@Example.com'', ev_name = ''Dev'', ev_orderType = None\<rparr>\<rparr>"

text \<open>
  A checkout webhook that carries the development dummy in place of a signature, and
  the digest function that the handler would check it against.
\<close>

definition sampleDigest :: "string \<Rightarrow> string" where
  "sampleDigest t = ''a1b2''"

definition forgedCheckout :: checkout_request where
  "forgedCheckout = renewalCheckout\<lparr>cr_signature := Some ''dummy-signature-dev''\<rparr>"

text \<open>
  The end-to-end scenario: a guest checkout completed through each copy of the
  Razorpay controller and through the checkout webhook, and a registered account
  activated through the PhonePe webhook.
\<close>

definition guestActivation :: "(response \<times> database) option" where
  "guestActivation =
     verifySubscriptionPayment (\<lambda>t. ''a1b2'') 1000 7 [''AB12CD34EF56''] renewalDb
       (signedVerification 16)"

definition guestActivation_autoLogin :: "(response \<times> database) option" where
  "guestActivation_autoLogin =
     verifySubscriptionPayment_autoLogin (\<lambda>t. ''a1b2'') 1000 7 [''AB12CD34EF56''] renewalDb
       (signedVerification 16)"

definition activatedGuest_autoLogin :: "user option" where
  "activatedGuest_autoLogin =
     (case guestActivation_autoLogin of
        None \<Rightarrow> None
      | Some (r, db') \<Rightarrow> findById (db_users db') 7)"

definition activatedGuest :: "user option" where
  "activatedGuest =
     (case guestActivation of
        None \<Rightarrow> None
      | Some (r, db') \<Rightarrow> findById (db_users db') 7)"

definition phonepeActivation :: "response \<times> database" where
  "phonepeActivation =
     handleWebhook ''c2VjcmV0'' 1000 sampleDb (completedWebhook 5 ''subscription'')"

definition phonepeActivated :: "user option" where
  "phonepeActivated = findById (db_users (snd phonepeActivation)) 2"

definition guestCheckout :: checkout_request where
  "guestCheckout =
     \<lparr>cr_signature = None, cr_rawBody = ''{}'',
      cr_event = \<lparr>ev_type = ''payment.success'', ev_order_id = ''p16'', ev_clientOrderId = ''c16'',
                  ev_email = ''eve@example.com'', ev_name = ''Eve'', ev_orderType = None\<rparr>\<rparr>"

definition checkoutActivated :: "user option" where
  "checkoutActivated =
     findById (db_users (snd (handleWebhook_checkout False (\<lambda>t. ''a1b2'') 1000 7 renewalDb
                                guestCheckout))) 7"

text \<open>
  Token purchase initiations whose gateway call fails.
\<close>

definition tokenRequest :: token_order_request where
  "tokenRequest = \<lparr>tr_packageId = Some 4, tr_userId = Some 2\<rparr>"

definition failedTokenOrder :: "response \<times> database" where
  "failedTokenOrder =
     createTokenOrder (\<lambda>amount receipt. Inl ''ECONNRESET'') 20 ''TKN_1'' sampleDb tokenRequest"

definition failedTokenPayment :: "response \<times> database" where
  "failedTokenPayment =
     createTokenPayment (\<lambda>t. ''TokenTransaction validation failed'') (Inr ''token'')
       (\<lambda>merchantOrderId amount. Inl ''ECONNRESET'')
       21 ''TOKEN_1'' sampleDb tokenRequest"

section \<open>Facts about collections\<close>

lemma findById_save:
  "findById (save c i d) j = (if j = i then Some d else findById c j)"
  by (simp add: findById_def save_def update_conv')

lemma save_twice: "save (save c i d) i d' = save c i d'"
  by (simp add: save_def)

lemma save_unchanged: "findById c i = Some d \<Longrightarrow> save c i d = c"
  by (simp add: findById_def save_def update_triv)

lemma delete_save: "findByIdAndDelete (save c i d) i = findByIdAndDelete c i"
  by (simp add: findByIdAndDelete_def save_def delete_update_same)

lemma delete_fresh: "findById c i = None \<Longrightarrow> findByIdAndDelete c i = c"
  by (simp add: findByIdAndDelete_def findById_def map_of_eq_None_iff)

lemma findById_delete:
  "findById (findByIdAndDelete c i) j = (if j = i then None else findById c j)"
  by (simp add: findByIdAndDelete_def findById_def delete_conv')

section \<open>Properties of the deduction engine\<close>

lemma deductDaily_eq:
  "bd_daily bd = 0 \<Longrightarrow> deductDaily (r, u, bd) =
     (let t = takeFrom r (daily_current (dailyTokens u)) in
     (r - t,
      u\<lparr>dailyTokens := (dailyTokens u)
          \<lparr>daily_current := daily_current (dailyTokens u) - t,
           daily_usedToday := daily_usedToday (dailyTokens u) + t\<rparr>\<rparr>,
      bd\<lparr>bd_daily := t\<rparr>))"
  by (simp add: deductDaily_def takeFrom_def Let_def)

lemma deductPurchased_eq:
  "bd_purchased bd = 0 \<Longrightarrow> deductPurchased (r, u, bd) =
     (let t = takeFrom r (purchased_current (purchasedTokens u)) in
     (r - t,
      u\<lparr>purchasedTokens := (purchasedTokens u)
          \<lparr>purchased_current := purchased_current (purchasedTokens u) - t,
           purchased_used := purchased_used (purchasedTokens u) + t\<rparr>\<rparr>,
      bd\<lparr>bd_purchased := t\<rparr>))"
  by (simp add: deductPurchased_def takeFrom_def Let_def)

lemma deductBonus_eq:
  "bd_bonus bd = 0 \<Longrightarrow> deductBonus (r, u, bd) =
     (let t = takeFrom r (bonus_current (bonusTokens u)) in
     (r - t,
      u\<lparr>bonusTokens := (bonusTokens u)
          \<lparr>bonus_current := bonus_current (bonusTokens u) - t,
           bonus_used := bonus_used (bonusTokens u) + t\<rparr>\<rparr>,
      bd\<lparr>bd_bonus := t\<rparr>))"
  by (simp add: deductBonus_def takeFrom_def Let_def)

lemma deductPrize_eq:
  "bd_prize bd = 0 \<Longrightarrow> deductPrize (r, u, bd) =
     (let t = takeFrom r (prize_current (prizeTokens u)) in
     (r - t,
      u\<lparr>prizeTokens := (prizeTokens u)
          \<lparr>prize_current := prize_current (prizeTokens u) - t,
           prize_used := prize_used (prizeTokens u) + t\<rparr>\<rparr>,
      bd\<lparr>bd_prize := t\<rparr>))"
  by (simp add: deductPrize_def takeFrom_def Let_def)

lemma chain_eq:
  "deductPrize (deductBonus (deductPurchased (deductDaily
      (n, u, \<lparr>bd_daily = 0, bd_purchased = 0, bd_bonus = 0, bd_prize = 0\<rparr>)))) =
   (n - take1 n u - take2 n u - take3 n u - take4 n u, debited n u,
    \<lparr>bd_daily = take1 n u, bd_purchased = take2 n u, bd_bonus = take3 n u, bd_prize = take4 n u\<rparr>)"
  by (simp add: deductDaily_eq deductPurchased_eq deductBonus_eq deductPrize_eq Let_def
        take1_def take2_def take3_def take4_def debited_def)

lemma updateStatistics_buckets:
  "dailyTokens (updateStatistics now n bd u) = dailyTokens u"
  "purchasedTokens (updateStatistics now n bd u) = purchasedTokens u"
  "bonusTokens (updateStatistics now n bd u) = bonusTokens u"
  "prizeTokens (updateStatistics now n bd u) = prizeTokens u"
  by (simp_all add: updateStatistics_def Let_def)

lemma deductTokens_success:
  assumes "findById db userId = Some u" and "\<not> planExpired now u"
    and "\<not> calculateTotalTokens now u < n"
  shows "deductTokens now db userId n =
    (let bd = \<lparr>bd_daily = take1 n u, bd_purchased = take2 n u,
                bd_bonus = take3 n u, bd_prize = take4 n u\<rparr>;
         u2 = updateStatistics now n bd (debited n u)
     in (Inr \<lparr>dr_tokensDeducted = n, dr_breakdown = bd,
              dr_remaining = getTokenBreakdown now u2\<rparr>, save db userId u2))"
  using assms by (simp add: deductTokens_def chain_eq Let_def)

lemma deductTokens_Inr_cases:
  assumes "findById db userId = Some u" and "deductTokens now db userId n = (Inr r, db')"
  shows "\<not> planExpired now u \<and> n \<le> bucketSum u"
  using assms
  by (auto simp: deductTokens_def Let_def calculateTotalTokens_def split: if_splits)

lemma takes_sum:
  assumes "0 \<le> n" and "n \<le> bucketSum u"
  shows "take1 n u + take2 n u + take3 n u + take4 n u = n"
  using assms
  by (auto simp: take1_def take2_def take3_def take4_def takeFrom_def bucketSum_def min_def)

lemma takes_debit:
  assumes "0 \<le> daily_current (dailyTokens u)" and "0 \<le> purchased_current (purchasedTokens u)"
    and "0 \<le> bonus_current (bonusTokens u)" and "0 \<le> prize_current (prizeTokens u)"
  shows "[take1 n u, take2 n u, take3 n u, take4 n u] =
         debit n [daily_current (dailyTokens u), purchased_current (purchasedTokens u),
                  bonus_current (bonusTokens u), prize_current (prizeTokens u)]"
  using assms
  by (auto simp: take1_def take2_def take3_def take4_def takeFrom_def Let_def min_def)

lemma sampleAccount_simps:
  "daily_current (dailyTokens sampleAccount) = 5"
  "purchased_current (purchasedTokens sampleAccount) = 10"
  "bonus_current (bonusTokens sampleAccount) = 0"
  "prize_current (prizeTokens sampleAccount) = 0"
  "sub_endDate (subscription sampleAccount) = Some 2000"
  "findById sampleAccounts 1 = Some sampleAccount"
  by (simp_all add: sampleAccount_def sampleAccounts_def schemaDefaults_def findById_def)

lemma sampleAccount_bucketSum: "bucketSum sampleAccount = 15"
  by (simp add: bucketSum_def sampleAccount_simps)

text \<open>
  No step takes more than a bucket holds, so a deduction keeps every balance that was
  not negative from becoming negative, for any requested amount.
\<close>

lemma takeFrom_bounds: "0 \<le> c \<Longrightarrow> takeFrom r c \<le> c"
  by (simp add: takeFrom_def)

lemma deductTokens_keeps_balances_nonnegative:
  assumes "findById db userId = Some u"
    and "0 \<le> daily_current (dailyTokens u)" and "0 \<le> purchased_current (purchasedTokens u)"
    and "0 \<le> bonus_current (bonusTokens u)" and "0 \<le> prize_current (prizeTokens u)"
    and "findById (snd (deductTokens now db userId n)) userId = Some w"
  shows "0 \<le> daily_current (dailyTokens w) \<and> 0 \<le> purchased_current (purchasedTokens w)
       \<and> 0 \<le> bonus_current (bonusTokens w) \<and> 0 \<le> prize_current (prizeTokens w)"
proof (cases "planExpired now u \<or> calculateTotalTokens now u < n")
  case True
  then have "snd (deductTokens now db userId n) = db"
    using assms(1) by (auto simp: deductTokens_def Let_def)
  with assms show ?thesis by simp
next
  case False
  then have ok: "\<not> planExpired now u" "\<not> calculateTotalTokens now u < n" by simp_all
  from deductTokens_success [where db=db and userId=userId, OF assms(1) ok] assms(6)
  have "w = updateStatistics now n
      \<lparr>bd_daily = take1 n u, bd_purchased = take2 n u, bd_bonus = take3 n u,
       bd_prize = take4 n u\<rparr> (debited n u)"
    by (simp add: Let_def findById_save)
  then show ?thesis
    using assms(2-5)
    by (simp add: updateStatistics_buckets debited_def take1_def take2_def take3_def take4_def
        takeFrom_bounds)
qed

text \<open>
  Claim C1, amended. For an account with an active subscription whose four bucket
  balances are not negative, a successful \<open>deductTokens\<close> debits the buckets in the
  order daily, purchased, bonus, prize, taking \<open>min(remaining, bucket.current)\<close>
  from each until nothing remains, lowers each bucket's \<open>current\<close> by what was
  taken from it and raises its \<open>used\<close> counter by the same amount. The returned
  breakdown is the list \<open>debit\<close> computes. The instance of the claim follows it:
  daily 5, purchased 10, bonus 0, prize 0 and a request of 8 give the breakdown 5, 3, 0, 0.
\<close>

theorem deductTokens_priority_order:
  assumes "findById db userId = Some u"
    and "0 \<le> daily_current (dailyTokens u)" and "0 \<le> purchased_current (purchasedTokens u)"
    and "0 \<le> bonus_current (bonusTokens u)" and "0 \<le> prize_current (prizeTokens u)"
    and "deductTokens now db userId n = (Inr r, db')"
  shows "\<exists>u'. findById db' userId = Some u'
     \<and> [bd_daily (dr_breakdown r), bd_purchased (dr_breakdown r),
         bd_bonus (dr_breakdown r), bd_prize (dr_breakdown r)] =
        debit n [daily_current (dailyTokens u), purchased_current (purchasedTokens u),
                 bonus_current (bonusTokens u), prize_current (prizeTokens u)]
     \<and> daily_current (dailyTokens u') = daily_current (dailyTokens u) - bd_daily (dr_breakdown r)
     \<and> daily_usedToday (dailyTokens u') = daily_usedToday (dailyTokens u) + bd_daily (dr_breakdown r)
     \<and> purchased_current (purchasedTokens u') =
          purchased_current (purchasedTokens u) - bd_purchased (dr_breakdown r)
     \<and> purchased_used (purchasedTokens u') =
          purchased_used (purchasedTokens u) + bd_purchased (dr_breakdown r)
     \<and> bonus_current (bonusTokens u') = bonus_current (bonusTokens u) - bd_bonus (dr_breakdown r)
     \<and> bonus_used (bonusTokens u') = bonus_used (bonusTokens u) + bd_bonus (dr_breakdown r)
     \<and> prize_current (prizeTokens u') = prize_current (prizeTokens u) - bd_prize (dr_breakdown r)
     \<and> prize_used (prizeTokens u') = prize_used (prizeTokens u) + bd_prize (dr_breakdown r)"
proof -
  from deductTokens_Inr_cases [where db=db and userId=userId, OF assms(1) assms(6)]
  have ok: "\<not> planExpired now u" "\<not> calculateTotalTokens now u < n"
    by (simp_all add: calculateTotalTokens_def)
  define bd where "bd = \<lparr>bd_daily = take1 n u, bd_purchased = take2 n u,
                bd_bonus = take3 n u, bd_prize = take4 n u\<rparr>"
  define u2 where "u2 = updateStatistics now n bd (debited n u)"
  from deductTokens_success [where db=db and userId=userId, OF assms(1) ok] assms(6)
  have r: "dr_breakdown r = bd" and db': "db' = save db userId u2"
    by (auto simp: Let_def bd_def u2_def)
  have takes: "[bd_daily bd, bd_purchased bd, bd_bonus bd, bd_prize bd] =
        debit n [daily_current (dailyTokens u), purchased_current (purchasedTokens u),
                 bonus_current (bonusTokens u), prize_current (prizeTokens u)]"
    using takes_debit [OF assms(2-5), of n] by (simp add: bd_def)
  have "findById db' userId = Some u2" by (simp add: db' findById_save)
  moreover have "daily_current (dailyTokens u2) = daily_current (dailyTokens u) - bd_daily bd"
    "daily_usedToday (dailyTokens u2) = daily_usedToday (dailyTokens u) + bd_daily bd"
    "purchased_current (purchasedTokens u2) = purchased_current (purchasedTokens u) - bd_purchased bd"
    "purchased_used (purchasedTokens u2) = purchased_used (purchasedTokens u) + bd_purchased bd"
    "bonus_current (bonusTokens u2) = bonus_current (bonusTokens u) - bd_bonus bd"
    "bonus_used (bonusTokens u2) = bonus_used (bonusTokens u) + bd_bonus bd"
    "prize_current (prizeTokens u2) = prize_current (prizeTokens u) - bd_prize bd"
    "prize_used (prizeTokens u2) = prize_used (prizeTokens u) + bd_prize bd"
    by (simp_all add: u2_def updateStatistics_buckets debited_def bd_def)
  ultimately show ?thesis using takes r by simp
qed

theorem deductTokens_priority_order_witness:
  "\<exists>r db'. deductTokens 1000 sampleAccounts 1 8 = (Inr r, db')
      \<and> dr_breakdown r = \<lparr>bd_daily = 5, bd_purchased = 3, bd_bonus = 0, bd_prize = 0\<rparr>"
proof -
  have live: "\<not> planExpired 1000 sampleAccount"
    by (simp add: planExpired_def sampleAccount_simps)
  have enough: "\<not> calculateTotalTokens 1000 sampleAccount < 8"
    by (simp add: calculateTotalTokens_def live sampleAccount_bucketSum)
  obtain r db' where run: "deductTokens 1000 sampleAccounts 1 8 = (Inr r, db')"
    using deductTokens_success [where db=sampleAccounts and userId=1, OF sampleAccount_simps(6) live enough] by (simp add: Let_def)
  have "[bd_daily (dr_breakdown r), bd_purchased (dr_breakdown r),
         bd_bonus (dr_breakdown r), bd_prize (dr_breakdown r)] = [5, 3, 0, 0]"
    using deductTokens_priority_order [where db=sampleAccounts and userId=1, OF sampleAccount_simps(6) _ _ _ _ run]
    by (auto simp: sampleAccount_simps)
  then have "dr_breakdown r = \<lparr>bd_daily = 5, bd_purchased = 3, bd_bonus = 0, bd_prize = 0\<rparr>"
    by (cases "dr_breakdown r") simp
  with run show ?thesis by blast
qed

text \<open>
  Claim C1 as stated, for every account, fails on an overdrawn bucket. Each step is
  guarded by \<open>bucket.current > 0\<close>, so with daily -5, purchased 10 and a request of 5
  the code skips the daily bucket and takes 5 from purchased, while taking
  \<open>min(remaining, bucket.current)\<close> from each bucket in turn takes -5 from daily and
  then 10 from purchased.
\<close>

theorem deductTokens_overdrawn_bucket_counterexample:
  "daily_current (dailyTokens overdrawnAccount) = - 5
   \<and> purchased_current (purchasedTokens overdrawnAccount) = 10
   \<and> bonus_current (bonusTokens overdrawnAccount) = 0
   \<and> prize_current (prizeTokens overdrawnAccount) = 0
   \<and> \<not> planExpired 1000 overdrawnAccount
   \<and> map_sum id dr_breakdown (fst (deductTokens 1000 overdrawnAccounts 1 5)) =
       Inr \<lparr>bd_daily = 0, bd_purchased = 5, bd_bonus = 0, bd_prize = 0\<rparr>
   \<and> debit 5 [- 5, 10, 0, 0] = [- 5, 10, 0, 0]"
proof -
  have b: "daily_current (dailyTokens overdrawnAccount) = - 5"
    "purchased_current (purchasedTokens overdrawnAccount) = 10"
    "bonus_current (bonusTokens overdrawnAccount) = 0"
    "prize_current (prizeTokens overdrawnAccount) = 0"
    "sub_endDate (subscription overdrawnAccount) = Some 2000"
    by (simp_all add: overdrawnAccount_def sampleAccount_def schemaDefaults_def)
  have stored: "findById overdrawnAccounts 1 = Some overdrawnAccount"
    by (simp add: overdrawnAccounts_def findById_def)
  have live: "\<not> planExpired 1000 overdrawnAccount"
    by (simp add: planExpired_def b)
  have enough: "\<not> calculateTotalTokens 1000 overdrawnAccount < 5"
    by (simp add: calculateTotalTokens_def live bucketSum_def b)
  have t: "take1 5 overdrawnAccount = 0" "take2 5 overdrawnAccount = 5"
    "take3 5 overdrawnAccount = 0" "take4 5 overdrawnAccount = 0"
    by (simp_all add: take1_def take2_def take3_def take4_def takeFrom_def b)
  have run: "map_sum id dr_breakdown (fst (deductTokens 1000 overdrawnAccounts 1 5)) =
       Inr \<lparr>bd_daily = 0, bd_purchased = 5, bd_bonus = 0, bd_prize = 0\<rparr>"
    using deductTokens_success [where db=overdrawnAccounts and userId=1,
        OF stored live enough]
    by (simp add: Let_def t)
  have spec: "debit 5 [- 5, 10, 0, 0] = [- 5, 10, 0, 0]"
    by (simp add: Let_def)
  from b live run spec show ?thesis by simp
qed

text \<open>
  Claim C4, amended. For every account and every amount that is not negative, a
  successful deduction lowers the sum of the four buckets by exactly the deducted
  amount, and the deducted amount is the sum of the returned breakdown. For a negative
  amount the call also succeeds, debits nothing and still reports the negative amount
  as deducted: see the counterexample below.
\<close>

theorem deductTokens_preserves_total:
  assumes "findById db userId = Some u" and "0 \<le> n"
    and "deductTokens now db userId n = (Inr r, db')"
  shows "\<exists>u'. findById db' userId = Some u'
     \<and> bucketSum u - dr_tokensDeducted r = bucketSum u'
     \<and> dr_tokensDeducted r =
         bd_daily (dr_breakdown r) + bd_purchased (dr_breakdown r)
           + bd_bonus (dr_breakdown r) + bd_prize (dr_breakdown r)"
proof -
  from deductTokens_Inr_cases [where db=db and userId=userId, OF assms(1) assms(3)]
  have live: "\<not> planExpired now u" and le: "n \<le> bucketSum u" by simp_all
  then have ok: "\<not> calculateTotalTokens now u < n"
    by (simp add: calculateTotalTokens_def)
  define bd where "bd = \<lparr>bd_daily = take1 n u, bd_purchased = take2 n u,
                bd_bonus = take3 n u, bd_prize = take4 n u\<rparr>"
  define u2 where "u2 = updateStatistics now n bd (debited n u)"
  from deductTokens_success [where db=db and userId=userId, OF assms(1) live ok] assms(3)
  have r: "dr_breakdown r = bd" "dr_tokensDeducted r = n" and db': "db' = save db userId u2"
    by (auto simp: Let_def bd_def u2_def)
  have sum: "take1 n u + take2 n u + take3 n u + take4 n u = n"
    by (rule takes_sum [OF assms(2) le])
  have "bucketSum u2 = bucketSum u - (take1 n u + take2 n u + take3 n u + take4 n u)"
    by (simp add: bucketSum_def u2_def updateStatistics_buckets debited_def)
  with sum have "bucketSum u - n = bucketSum u2" by simp
  moreover have "findById db' userId = Some u2" by (simp add: db' findById_save)
  ultimately show ?thesis using r sum by (simp add: bd_def)
qed

theorem deductTokens_preserves_total_witness:
  "\<exists>r db' u'. deductTokens 1000 sampleAccounts 1 8 = (Inr r, db') \<and> findById db' 1 = Some u'
      \<and> dr_tokensDeducted r = 8 \<and> bucketSum sampleAccount = 15 \<and> bucketSum u' = 7"
proof -
  have live: "\<not> planExpired 1000 sampleAccount"
    by (simp add: planExpired_def sampleAccount_simps)
  have enough: "\<not> calculateTotalTokens 1000 sampleAccount < 8"
    by (simp add: calculateTotalTokens_def live sampleAccount_bucketSum)
  obtain r db' where run: "deductTokens 1000 sampleAccounts 1 8 = (Inr r, db')"
    and r: "dr_tokensDeducted r = 8"
    using deductTokens_success [where db=sampleAccounts and userId=1,
        OF sampleAccount_simps(6) live enough] by (simp add: Let_def)
  have "(0::int) \<le> 8" by simp
  from deductTokens_preserves_total [where db=sampleAccounts and userId=1,
      OF sampleAccount_simps(6) this run]
  obtain u' where "findById db' 1 = Some u'" "bucketSum sampleAccount - dr_tokensDeducted r = bucketSum u'"
    by blast
  with run r show ?thesis by (auto simp: sampleAccount_bucketSum)
qed

text \<open>
  Claim C4 as stated, for every amount, fails at the amount \<open>-1\<close>: the call
  succeeds and reports \<open>-1\<close> tokens deducted, the breakdown sums to 0, and the
  buckets sum to 15 before and after, not to \<open>15 - (-1)\<close>.
\<close>

theorem deductTokens_negative_amount_counterexample:
  "map_sum id dr_tokensDeducted (fst (deductTokens 1000 sampleAccounts 1 (- 1))) = Inr (- 1)
   \<and> map_sum id dr_breakdown (fst (deductTokens 1000 sampleAccounts 1 (- 1))) =
       Inr \<lparr>bd_daily = 0, bd_purchased = 0, bd_bonus = 0, bd_prize = 0\<rparr>
   \<and> bucketSum sampleAccount = 15
   \<and> map_option bucketSum (findById (snd (deductTokens 1000 sampleAccounts 1 (- 1))) 1) = Some 15"
proof -
  have live: "\<not> planExpired 1000 sampleAccount"
    by (simp add: planExpired_def sampleAccount_simps)
  have enough: "\<not> calculateTotalTokens 1000 sampleAccount < - 1"
    by (simp add: calculateTotalTokens_def live sampleAccount_bucketSum)
  have t: "take1 (- 1) sampleAccount = 0" "take2 (- 1) sampleAccount = 0"
    "take3 (- 1) sampleAccount = 0" "take4 (- 1) sampleAccount = 0"
    by (simp_all add: take1_def take2_def take3_def take4_def takeFrom_def)
  show ?thesis
    using deductTokens_success [where db=sampleAccounts and userId=1,
        OF sampleAccount_simps(6) live enough]
    by (simp add: Let_def t bucketSum_def updateStatistics_buckets debited_def
          sampleAccount_simps findById_save)
qed

text \<open>
  Claim C5. \<open>deductTokens\<close> checks the subscription first: when the plan is not
  active it fails with \<open>SubscriptionExpired\<close>; when the plan is active and the
  amount exceeds the total available it fails with \<open>InsufficientTokens\<close>; in both
  cases it fails, and every failing call leaves the stored accounts, hence all four
  buckets' \<open>current\<close> and \<open>used\<close> values, as they were.
\<close>

theorem deductTokens_failures:
  assumes "findById db userId = Some u"
  shows "(planExpired now u \<longrightarrow>
            fst (deductTokens now db userId n) = Inl SubscriptionExpired)
       \<and> (\<not> planExpired now u \<and> calculateTotalTokens now u < n \<longrightarrow>
            fst (deductTokens now db userId n) =
              Inl (InsufficientTokens n (calculateTotalTokens now u)))
       \<and> (planExpired now u \<or> calculateTotalTokens now u < n \<longrightarrow>
            (\<exists>e. fst (deductTokens now db userId n) = Inl e))
       \<and> (\<forall>e. fst (deductTokens now db userId n) = Inl e \<longrightarrow>
            snd (deductTokens now db userId n) = db)"
  using assms by (auto simp: deductTokens_def Let_def split: prod.splits)

theorem deductTokens_failures_witness:
  "fst (deductTokens 3000 sampleAccounts 1 8) = Inl SubscriptionExpired
   \<and> snd (deductTokens 3000 sampleAccounts 1 8) = sampleAccounts
   \<and> fst (deductTokens 1000 sampleAccounts 1 16) = Inl (InsufficientTokens 16 15)
   \<and> snd (deductTokens 1000 sampleAccounts 1 16) = sampleAccounts"
proof -
  have dead: "planExpired 3000 sampleAccount"
    by (simp add: planExpired_def sampleAccount_simps)
  have live: "\<not> planExpired 1000 sampleAccount"
    by (simp add: planExpired_def sampleAccount_simps)
  have total: "calculateTotalTokens 1000 sampleAccount = 15"
    by (simp add: calculateTotalTokens_def live sampleAccount_bucketSum)
  from deductTokens_failures [where db=sampleAccounts and userId=1 and now=3000 and n=8,
      OF sampleAccount_simps(6)] dead
  have a: "fst (deductTokens 3000 sampleAccounts 1 8) = Inl SubscriptionExpired"
    "snd (deductTokens 3000 sampleAccounts 1 8) = sampleAccounts" by simp_all
  from deductTokens_failures [where db=sampleAccounts and userId=1 and now=1000 and n=16,
      OF sampleAccount_simps(6)] live total
  have b: "fst (deductTokens 1000 sampleAccounts 1 16) = Inl (InsufficientTokens 16 15)"
    "snd (deductTokens 1000 sampleAccounts 1 16) = sampleAccounts" by simp_all
  from a b show ?thesis by simp
qed

text \<open>
  \<open>calculateTotalTokens\<close> and \<open>getTokenBreakdown\<close> agree at every instant
  other than \<open>endDate\<close> itself, and differ there.
\<close>

lemma totals_agree_off_boundary:
  "sub_endDate (subscription u) \<noteq> Some now \<Longrightarrow>
     tb_total (getTokenBreakdown now u) = calculateTotalTokens now u"
  by (auto simp: getTokenBreakdown_def calculateTotalTokens_def planActive_def planExpired_def
        Let_def split: option.splits)

lemma totals_at_boundary:
  "sub_endDate (subscription u) = Some now \<Longrightarrow>
     calculateTotalTokens now u = bucketSum u \<and> \<not> planExpired now u
     \<and> tb_total (getTokenBreakdown now u) = 0 \<and> \<not> tb_isActive (getTokenBreakdown now u)"
  by (simp add: getTokenBreakdown_def calculateTotalTokens_def planActive_def planExpired_def
        Let_def)

text \<open>
  Claim C10. At the instant \<open>now = endDate\<close> (here 2000) the sample account has
  \<open>calculateTotalTokens = 15\<close>, the sum of its buckets, and \<open>deductTokens\<close>
  accepts the plan as active and debits 8 tokens, while \<open>getTokenBreakdown\<close>
  reports the plan inactive and a total of 0: the two totals are not equal there.
\<close>

theorem totals_disagree_at_endDate:
  "sub_endDate (subscription sampleAccount) = Some 2000
   \<and> calculateTotalTokens 2000 sampleAccount = 15
   \<and> tb_total (getTokenBreakdown 2000 sampleAccount) = 0
   \<and> \<not> tb_isActive (getTokenBreakdown 2000 sampleAccount)
   \<and> map_sum id dr_breakdown (fst (deductTokens 2000 sampleAccounts 1 8)) =
       Inr \<lparr>bd_daily = 5, bd_purchased = 3, bd_bonus = 0, bd_prize = 0\<rparr>"
proof -
  have e: "sub_endDate (subscription sampleAccount) = Some 2000"
    by (simp add: sampleAccount_simps)
  note b = totals_at_boundary [OF e]
  have enough: "\<not> calculateTotalTokens 2000 sampleAccount < 8"
    using b by (simp add: sampleAccount_bucketSum)
  have t: "take1 8 sampleAccount = 5" "take2 8 sampleAccount = 3"
    "take3 8 sampleAccount = 0" "take4 8 sampleAccount = 0"
    by (simp_all add: take1_def take2_def take3_def take4_def takeFrom_def sampleAccount_simps)
  have "map_sum id dr_breakdown (fst (deductTokens 2000 sampleAccounts 1 8)) =
       Inr \<lparr>bd_daily = 5, bd_purchased = 3, bd_bonus = 0, bd_prize = 0\<rparr>"
    using deductTokens_success [where db=sampleAccounts and userId=1,
        OF sampleAccount_simps(6) conjunct1 [OF conjunct2 [OF b]] enough]
    by (simp add: Let_def t)
  with b e show ?thesis by (simp add: sampleAccount_bucketSum)
qed

section \<open>Properties of the referral cycle engine\<close>

lemma milestone_met_iff:
  "(\<exists>(k, m) \<in> set REFERRAL_MILESTONES. ms_target m \<le> a) \<longleftrightarrow> 8 \<le> a"
  by (auto simp: REFERRAL_MILESTONES_def)

lemma milestoneLoop_met:
  "8 \<le> a \<Longrightarrow> milestoneLoop now u a REFERRAL_MILESTONES =
     Some (grantMilestoneRewardAndReset now u ''referral_8''
             \<lparr>ms_target = 8, ms_reward = 300, ms_field = Referral8\<rparr>)"
  by (simp add: REFERRAL_MILESTONES_def)

lemma milestoneLoop_unmet:
  "a < 8 \<Longrightarrow> milestoneLoop now u a REFERRAL_MILESTONES = None"
  by (simp add: REFERRAL_MILESTONES_def)

lemma cycleReferral_inactive: "\<not> ref_isActive (cycleReferral r)"
  by (simp add: cycleReferral_def)

text \<open>
  Claim C7. When the stored \<open>activeReferrals\<close> count meets a milestone target, one
  call of \<open>checkReferralMilestones\<close> grants exactly one reward: the first milestone
  of the table whose target is met, which is \<open>referral_8\<close> whenever any is. Only
  that milestone's cycle counter goes up, by one; the counters of the other two stay;
  \<open>activeReferrals\<close> is reset to 0; every referral entry that was active keeps
  its user and join date, becomes inactive and gets the status \<open>cycled\<close>, every
  other entry stays as it was; and a second check of the resulting store changes
  nothing. The instance that follows has 25 active referrals, so all of 8, 15 and 25
  are met, and still only the one milestone is processed; its pending entry is untouched.
\<close>

theorem checkReferralMilestones_one_cycle:
  assumes "findById db referrerId = Some u"
    and "\<exists>(k, m) \<in> set REFERRAL_MILESTONES. ms_target m \<le> activeReferrals (referralStats u)"
  shows "\<exists>u'. checkReferralMilestones now db referrerId = save db referrerId u'
      \<and> temp_amount (temporaryTokens u') = 300
      \<and> totalTokensEarned (milestoneRewards u') = totalTokensEarned (milestoneRewards u) + 300
      \<and> referral8Cycles (milestoneRewards u') = referral8Cycles (milestoneRewards u) + 1
      \<and> referral15Cycles (milestoneRewards u') = referral15Cycles (milestoneRewards u)
      \<and> referral25Cycles (milestoneRewards u') = referral25Cycles (milestoneRewards u)
      \<and> activeReferrals (referralStats u') = 0
      \<and> length (referrals u') = length (referrals u)
      \<and> (\<forall>i < length (referrals u).
            ref_userId (referrals u' ! i) = ref_userId (referrals u ! i)
          \<and> ref_joinedAt (referrals u' ! i) = ref_joinedAt (referrals u ! i)
          \<and> (ref_isActive (referrals u ! i) \<longrightarrow>
                \<not> ref_isActive (referrals u' ! i)
              \<and> ref_subscriptionStatus (referrals u' ! i) = RefCycled)
          \<and> (\<not> ref_isActive (referrals u ! i) \<longrightarrow> referrals u' ! i = referrals u ! i))
      \<and> (\<forall>r \<in> set (referrals u'). \<not> ref_isActive r)
      \<and> length (notifications u') = length (notifications u) + 1
      \<and> checkReferralMilestones later (checkReferralMilestones now db referrerId) referrerId =
          checkReferralMilestones now db referrerId"
proof -
  from assms(2) have met: "8 \<le> activeReferrals (referralStats u)"
    by (simp only: milestone_met_iff)
  define u' where "u' = grantMilestoneRewardAndReset now u ''referral_8''
             \<lparr>ms_target = 8, ms_reward = 300, ms_field = Referral8\<rparr>"
  have first: "checkReferralMilestones now db referrerId = save db referrerId u'"
    using assms(1) by (simp add: checkReferralMilestones_def milestoneLoop_met [OF met] u'_def)
  have reset: "activeReferrals (referralStats u') = 0"
    by (simp add: u'_def grantMilestoneRewardAndReset_def Let_def)
  have again: "checkReferralMilestones later (save db referrerId u') referrerId =
      save db referrerId u'"
    by (simp add: checkReferralMilestones_def milestoneLoop_unmet reset findById_save)
  have fields: "temp_amount (temporaryTokens u') = 300"
    "totalTokensEarned (milestoneRewards u') = totalTokensEarned (milestoneRewards u) + 300"
    "referral8Cycles (milestoneRewards u') = referral8Cycles (milestoneRewards u) + 1"
    "referral15Cycles (milestoneRewards u') = referral15Cycles (milestoneRewards u)"
    "referral25Cycles (milestoneRewards u') = referral25Cycles (milestoneRewards u)"
    "referrals u' = map cycleReferral (referrals u)"
    "length (notifications u') = length (notifications u) + 1"
    by (simp_all add: u'_def grantMilestoneRewardAndReset_def Let_def)
  have entries: "\<forall>i < length (referrals u).
            ref_userId (referrals u' ! i) = ref_userId (referrals u ! i)
          \<and> ref_joinedAt (referrals u' ! i) = ref_joinedAt (referrals u ! i)
          \<and> (ref_isActive (referrals u ! i) \<longrightarrow>
                \<not> ref_isActive (referrals u' ! i)
              \<and> ref_subscriptionStatus (referrals u' ! i) = RefCycled)
          \<and> (\<not> ref_isActive (referrals u ! i) \<longrightarrow> referrals u' ! i = referrals u ! i)"
    by (simp add: fields(6) cycleReferral_def)
  have inactive: "\<forall>r \<in> set (referrals u'). \<not> ref_isActive r"
    by (simp add: fields(6) cycleReferral_inactive)
  have len: "length (referrals u') = length (referrals u)"
    by (simp add: fields(6))
  show ?thesis
    apply (rule exI [where x = u'])
    apply (intro conjI)
    apply (rule first fields(1-5) reset len entries inactive fields(7))+
    apply (simp only: first again)
    done
qed

theorem checkReferralMilestones_one_cycle_witness:
  "\<exists>u'. checkReferralMilestones 5000 ([(7, sampleReferrer)]) 7 =
          [(7, u')]
      \<and> activeReferrals (referralStats sampleReferrer) = 25
      \<and> temp_amount (temporaryTokens u') = 300
      \<and> referral8Cycles (milestoneRewards u') = 1
      \<and> referral15Cycles (milestoneRewards u') = 0
      \<and> referral25Cycles (milestoneRewards u') = 0
      \<and> totalTokensEarned (milestoneRewards u') = 300
      \<and> activeReferrals (referralStats u') = 0
      \<and> length (referrals u') = 26
      \<and> (\<forall>i < 25. ref_userId (referrals u' ! i) = 100 + i
                    \<and> \<not> ref_isActive (referrals u' ! i)
                    \<and> ref_subscriptionStatus (referrals u' ! i) = RefCycled)
      \<and> referrals u' ! 25 =
          \<lparr>ref_userId = 99, ref_joinedAt = 0, ref_isActive = False,
           ref_subscriptionStatus = RefPending\<rparr>"
proof -
  have entries: "length (referrals sampleReferrer) = 26"
    "\<forall>i < 25. ref_userId (referrals sampleReferrer ! i) = 100 + i
        \<and> ref_isActive (referrals sampleReferrer ! i)"
    "referrals sampleReferrer ! 25 =
       \<lparr>ref_userId = 99, ref_joinedAt = 0, ref_isActive = False,
        ref_subscriptionStatus = RefPending\<rparr>"
    by (simp_all add: sampleReferrer_def nth_append del: upt_rec_numeral)
  have stored: "findById [(7, sampleReferrer)] 7 = Some sampleReferrer"
    by (simp add: findById_def)
  have count: "activeReferrals (referralStats sampleReferrer) = 25"
    by (simp add: sampleReferrer_def)
  have met: "\<exists>(k, m) \<in> set REFERRAL_MILESTONES.
      ms_target m \<le> activeReferrals (referralStats sampleReferrer)"
    by (simp add: count REFERRAL_MILESTONES_def)
  have zero: "referral8Cycles (milestoneRewards sampleReferrer) = 0"
    "referral15Cycles (milestoneRewards sampleReferrer) = 0"
    "referral25Cycles (milestoneRewards sampleReferrer) = 0"
    "totalTokensEarned (milestoneRewards sampleReferrer) = 0"
    by (simp_all add: sampleReferrer_def schemaDefaults_def)
  from checkReferralMilestones_one_cycle
    [where db="[(7, sampleReferrer)]" and referrerId=7 and now=5000,
     OF stored met]
  obtain w where w: "checkReferralMilestones 5000 [(7, sampleReferrer)] 7 =
        save [(7, sampleReferrer)] 7 w"
      "temp_amount (temporaryTokens w) = 300"
      "totalTokensEarned (milestoneRewards w) =
         totalTokensEarned (milestoneRewards sampleReferrer) + 300"
      "referral8Cycles (milestoneRewards w) = referral8Cycles (milestoneRewards sampleReferrer) + 1"
      "referral15Cycles (milestoneRewards w) = referral15Cycles (milestoneRewards sampleReferrer)"
      "referral25Cycles (milestoneRewards w) = referral25Cycles (milestoneRewards sampleReferrer)"
      "activeReferrals (referralStats w) = 0"
      "length (referrals w) = length (referrals sampleReferrer)"
      and each: "\<forall>i < length (referrals sampleReferrer).
            ref_userId (referrals w ! i) = ref_userId (referrals sampleReferrer ! i)
          \<and> ref_joinedAt (referrals w ! i) = ref_joinedAt (referrals sampleReferrer ! i)
          \<and> (ref_isActive (referrals sampleReferrer ! i) \<longrightarrow>
                \<not> ref_isActive (referrals w ! i)
              \<and> ref_subscriptionStatus (referrals w ! i) = RefCycled)
          \<and> (\<not> ref_isActive (referrals sampleReferrer ! i) \<longrightarrow>
                referrals w ! i = referrals sampleReferrer ! i)"
    by blast
  have cycled: "\<forall>i < 25. ref_userId (referrals w ! i) = 100 + i
                    \<and> \<not> ref_isActive (referrals w ! i)
                    \<and> ref_subscriptionStatus (referrals w ! i) = RefCycled"
    using each entries(1,2) by simp
  have kept: "referrals w ! 25 =
          \<lparr>ref_userId = 99, ref_joinedAt = 0, ref_isActive = False,
           ref_subscriptionStatus = RefPending\<rparr>"
    using each entries(1,3) by simp
  show ?thesis
    by (rule exI [where x = w])
       (simp add: w count zero cycled kept entries(1) save_def)
qed

section \<open>Properties of payment reconciliation\<close>






lemma sample_simps:
  "findById (db_users sampleDb) 2 = Some freshAccount"
  "findById (db_orders sampleDb) 5 = Some sampleOrder"
  "findById (db_plans sampleDb) 3 = Some samplePlan"
  "findById (db_transactions sampleDb) 9 = Some (pendingTransaction 9 2 samplePackage None)"
  "findById (db_packages sampleDb) 4 = Some samplePackage"
  by (simp_all add: sampleDb_def findById_def)

lemma completedWebhook_parse:
  "verifyWebhookSignature ''c2VjcmV0'' (rq_authorization (completedWebhook ref kind))"
  "parseWebhookData (rq_body (completedWebhook ref kind)) = Some
     \<lparr>wd_event = ''checkout.order.completed'', wd_merchantOrderId = ''M1'',
      wd_state = ''COMPLETED'', wd_amount = 4900,
      wd_metaInfo = \<lparr>udf1 = Some ref, udf2 = Some kind\<rparr>,
      wd_paymentMode = Some ''UPI_QR'', wd_transactionId = Some ''T1'',
      wd_errorInfo = None\<rparr>"
  by (simp_all add: completedWebhook_def verifyWebhookSignature_def parseWebhookData_def)

lemma renewalDb_simps:
  "findById (db_users renewalDb) 2 = Some freshAccount"
  "findById (db_users renewalDb) 12 = Some subscriber"
  "findById (db_orders renewalDb) 5 = Some sampleOrder"
  "findById (db_orders renewalDb) 15 = Some renewalOrder"
  "findById (db_orders renewalDb) 16 = Some guestOrder"
  "findById (db_plans renewalDb) 3 = Some samplePlan"
  by (simp_all add: renewalDb_def findById_def)

lemma toLowerCase_sample: "toLowerCase ''Dev@Example.com'' = ''dev@example.com''"
  by (simp add: toLowerCase_def lowerChar_def)

lemma renewalDb_findOne:
  "findOne (\<lambda>d. clientOrderId d = ''c15'') (db_orders renewalDb) = Some renewalOrder"
  "findOne (\<lambda>u. email u = ''dev@example.com'') (db_users renewalDb) = Some subscriber"
  by (simp_all add: renewalDb_def findOne_def sampleOrder_def renewalOrder_def
      freshAccount_def subscriber_def schemaDefaults_def)

text \<open>
  Claim C2. The PhonePe handlers have no terminal-state check. Delivering the same
  signed \<open>COMPLETED\<close> token-purchase webhook twice credits the 50 tokens twice (the
  balance goes 0, 50, 100) although the transaction is already \<open>completed\<close> after
  the first delivery, and the second answer is the plain acknowledgement, not
  "already processed"; delivering the subscription webhook twice activates twice, the
  window restarting at the second delivery (start 1000, then 5000).
\<close>

theorem phonepe_redelivery_credits_twice:
  "map_option tokens (findById (db_users sampleDb) 2) = Some 0
   \<and> fst (fst (deliverTwice (completedWebhook 9 ''token_purchase''))) = reply 200 (Some True) None None
   \<and> map_option tokens
        (findById (db_users (snd (fst (deliverTwice (completedWebhook 9 ''token_purchase''))))) 2) = Some 50
   \<and> map_option txn_status
        (findById (db_transactions (snd (fst (deliverTwice (completedWebhook 9 ''token_purchase''))))) 9)
        = Some TxCompleted
   \<and> fst (snd (deliverTwice (completedWebhook 9 ''token_purchase''))) = reply 200 (Some True) None None
   \<and> map_option tokens
        (findById (db_users (snd (snd (deliverTwice (completedWebhook 9 ''token_purchase''))))) 2) = Some 100
   \<and> map_option (sub_startDate \<circ> subscription)
        (findById (db_users (snd (fst (deliverTwice (completedWebhook 5 ''subscription''))))) 2)
        = Some (Some 1000)
   \<and> map_option paymentStatus
        (findById (db_orders (snd (fst (deliverTwice (completedWebhook 5 ''subscription''))))) 5)
        = Some Completed
   \<and> map_option (sub_startDate \<circ> subscription)
        (findById (db_users (snd (snd (deliverTwice (completedWebhook 5 ''subscription''))))) 2)
        = Some (Some 5000)"
  by (simp add: deliverTwice_def Let_def handleWebhook_def completedWebhook_parse
        processWebhook_def processTokenWebhook_def processSubscriptionWebhook_def
        sample_simps findById_save pendingTransaction_def samplePackage_def
        sampleAccount_def schemaDefaults_def sampleOrder_def planWindow_def freshAccount_def)

text \<open>
  Claim C8, amended. A PhonePe webhook whose signature does not verify is rejected as
  an invalid signature with status 401, and nothing is written: the order, transaction
  and account collections are the ones the request found.
\<close>

theorem invalid_signature_rejected:
  "\<not> verifyWebhookSignature expectedHash (rq_authorization req) \<longrightarrow>
      handleWebhook expectedHash now db req =
        (reply 401 (Some False) None (Some ''Invalid signature''), db)"
  by (simp add: handleWebhook_def)

theorem invalid_signature_rejected_witness:
  "\<not> verifyWebhookSignature ''c2VjcmV0'' (rq_authorization forgedWebhook)
   \<and> handleWebhook ''c2VjcmV0'' 1000 sampleDb forgedWebhook =
     (reply 401 (Some False) None (Some ''Invalid signature''), sampleDb)"
proof -
  have a: "\<not> verifyWebhookSignature ''c2VjcmV0'' (rq_authorization forgedWebhook)"
    by (simp add: forgedWebhook_def verifyWebhookSignature_def)
  from invalid_signature_rejected [where expectedHash="''c2VjcmV0''" and req=forgedWebhook
      and now=1000 and db=sampleDb] a
  show ?thesis by simp
qed

text \<open>
  Claim C8 as stated fails twice. The answer of the PhonePe webhook to a failed
  signature check is 401, not 200. And the claim does not hold of every payment
  webhook: in production the checkout webhook skips the check for a request that
  carries the development dummy, which is not the digest of the body; the request is
  answered 200 and renews account 12, whose plan ended at 2000.
\<close>

theorem invalid_signature_status_counterexample:
  "\<not> verifyWebhookSignature ''c2VjcmV0'' (rq_authorization forgedWebhook)
   \<and> res_status (fst (handleWebhook ''c2VjcmV0'' 1000 sampleDb forgedWebhook)) = 401
   \<and> cr_signature forgedCheckout = Some ''dummy-signature-dev''
   \<and> sampleDigest (cr_rawBody forgedCheckout) \<noteq> ''dummy-signature-dev''
   \<and> res_status (fst (handleWebhook_checkout True sampleDigest 1000 7 renewalDb forgedCheckout))
       = 200
   \<and> map_option (sub_endDate \<circ> subscription) (findById (db_users renewalDb) 12) = Some (Some 2000)
   \<and> map_option (sub_endDate \<circ> subscription)
        (findById (db_users (snd (handleWebhook_checkout True sampleDigest 1000 7 renewalDb
                                    forgedCheckout))) 12) = Some (Some 2592001000)"
proof -
  have a: "\<not> verifyWebhookSignature ''c2VjcmV0'' (rq_authorization forgedWebhook)
   \<and> res_status (fst (handleWebhook ''c2VjcmV0'' 1000 sampleDb forgedWebhook)) = 401"
    by (simp add: forgedWebhook_def verifyWebhookSignature_def handleWebhook_def reply_def
        completedWebhook_def)
  have ev: "ev_type (cr_event forgedCheckout) = ''payment.success''"
    "ev_orderType (cr_event forgedCheckout) = None"
    "ev_clientOrderId (cr_event forgedCheckout) = ''c15''"
    "ev_order_id (cr_event forgedCheckout) = ''p15''"
    "toLowerCase (ev_email (cr_event forgedCheckout)) = ''dev@example.com''"
    "cr_signature forgedCheckout = Some ''dummy-signature-dev''"
    by (simp_all add: forgedCheckout_def renewalCheckout_def toLowerCase_sample)
  have ord: "order_status renewalOrder \<noteq> Completed" "order_planId renewalOrder = 3"
    "order_id renewalOrder = 15"
    by (simp_all add: renewalOrder_def sampleOrder_def)
  have sub: "user_id subscriber = 12" "referredBy subscriber = None"
    "sub_endDate (subscription subscriber) = Some 2000"
    by (simp_all add: subscriber_def schemaDefaults_def)
  have run: "handleWebhook_checkout True sampleDigest 1000 7 renewalDb forgedCheckout =
      (reply 200 None (Some ''Payment processed successfully'') None,
       renewalDb\<lparr>db_users := save (db_users renewalDb) 12
                     (renewFromCheckout 1000 samplePlan subscriber),
                  db_orders := save (db_orders renewalDb) 15
                     (renewalOrder\<lparr>order_status := Completed, providerOrderId := ''p15''\<rparr>)\<rparr>)"
    by (simp add: handleWebhook_checkout_def checkoutSignatureRejected_def ev ord sub Let_def
        renewalDb_findOne renewalDb_simps renewFromCheckout_def)
  show ?thesis
    using a
    by (simp add: run ev sub renewalDb_simps findById_save reply_def renewFromCheckout_def
        planWindow_def samplePlan_def sampleDigest_def)
qed

text \<open>
  The two Razorpay verification endpoints, in both copies of the controller, answer
  400 to a signature that does not verify and write nothing.
\<close>

lemma razorpay_signature_rejected:
  assumes "\<not> verifyPaymentSignature hmac (rz_order_id rz) (rz_payment_id rz) (rz_signature rz)"
  shows "verifySubscriptionPayment hmac now freshId draws db rz =
           Some (reply 400 (Some False) None (Some ''Invalid payment signature''), db)"
    and "verifyTokenPurchasePayment hmac now db rz =
           (reply 400 (Some False) None (Some ''Invalid signature''), db)"
    and "verifySubscriptionPayment_autoLogin hmac now freshId draws db rz =
           Some (reply 400 (Some False) None (Some ''Invalid payment signature''), db)"
    and "verifyTokenPurchasePayment_autoLogin hmac now db rz =
           (reply 400 (Some False) None (Some ''Invalid signature''), db)"
  using assms
  by (simp_all add: verifySubscriptionPayment_def verifyTokenPurchasePayment_def
      verifySubscriptionPayment_autoLogin_def verifyTokenPurchasePayment_autoLogin_def)

text \<open>
  The Razorpay paths do have the terminal-state check: once a verification has
  completed, repeating it answers "Already processed" and leaves the store as it is.
\<close>

lemma verifyTokenPurchasePayment_idempotent:
  assumes "verifyTokenPurchasePayment hmac now db rz = (r, db')"
    and "res_message r = Some ''Payment verified and tokens added''"
  shows "verifyTokenPurchasePayment hmac later db' rz =
           (reply 200 (Some True) (Some ''Already processed'') None, db')"
  using assms
  by (auto simp: verifyTokenPurchasePayment_def Let_def reply_def findById_save
      split: if_splits option.splits)

lemma verifyTokenPurchasePayment_autoLogin_idempotent:
  assumes "verifyTokenPurchasePayment_autoLogin hmac now db rz = (r, db')"
    and "res_message r = Some ''Payment verified and tokens added''"
  shows "verifyTokenPurchasePayment_autoLogin hmac later db' rz =
           (reply 200 (Some True) (Some ''Already processed'') None, db')"
  using assms
  by (auto simp: verifyTokenPurchasePayment_autoLogin_def Let_def reply_def findById_save
      split: if_splits option.splits)

lemma verifySubscriptionPayment_idempotent:
  assumes "verifySubscriptionPayment hmac now freshId draws db rz = Some (r, db')"
    and "res_message r = Some ''Payment verified and subscription activated''"
  shows "verifySubscriptionPayment hmac later freshId' draws' db' rz =
           Some (reply 200 (Some True) (Some ''Already processed'') None, db')"
proof -
  from assms obtain ord where
    "findById (db_orders db') (rz_ref rz) = Some ord" "paymentStatus ord = Completed"
    and "verifyPaymentSignature hmac (rz_order_id rz) (rz_payment_id rz) (rz_signature rz)"
    by (auto simp: verifySubscriptionPayment_def Let_def reply_def completeVerification_def
        findById_save split: if_splits option.splits prod.splits)
  then show ?thesis
    by (simp add: verifySubscriptionPayment_def)
qed

lemma verifySubscriptionPayment_autoLogin_idempotent:
  assumes "verifySubscriptionPayment_autoLogin hmac now freshId draws db rz = Some (r, db')"
    and "res_message r = Some ''Payment verified and subscription activated''"
  shows "verifySubscriptionPayment_autoLogin hmac later freshId' draws' db' rz =
           Some (reply 200 (Some True) (Some ''Already processed'') None, db')"
proof -
  from assms obtain ord where
    "findById (db_orders db') (rz_ref rz) = Some ord" "paymentStatus ord = Completed"
    and "verifyPaymentSignature hmac (rz_order_id rz) (rz_payment_id rz) (rz_signature rz)"
    by (auto simp: verifySubscriptionPayment_autoLogin_def Let_def reply_def
        completeVerification_autoLogin_def findById_save
        split: if_splits option.splits prod.splits)
  then show ?thesis
    by (simp add: verifySubscriptionPayment_autoLogin_def)
qed



lemma processSubscriptionWebhook_existing:
  assumes "wd_state wd = ''COMPLETED''" and "udf1 (wd_metaInfo wd) = Some orderId"
    and "findById (db_orders db) orderId = Some ord"
    and "order_userId ord = Some uid" and "findById (db_users db) uid = Some u"
    and "findById (db_plans db) (order_planId ord) = Some pl"
  shows "findById (db_users (processSubscriptionWebhook now db wd)) uid =
           Some (u\<lparr>subscription := planWindow now pl,
                   tokens := plan_dailyTokens pl,
                   monthlyTokensTotal := durationDays pl * plan_dailyTokens pl,
                   monthlyTokensRemaining := durationDays pl * plan_dailyTokens pl\<rparr>)
      \<and> map_option paymentStatus
            (findById (db_orders (processSubscriptionWebhook now db wd)) orderId) = Some Completed"
  using assms
  by (simp add: processSubscriptionWebhook_def Let_def findById_save)







text \<open>
  The accounts of the end-to-end scenario after activation.
\<close>

lemma guestActivation_user:
  "activatedGuest = Some (renewSubscription 1000 samplePlan
      (userFromOrder 1000 7 guestOrder samplePlan ''AB12CD34EF56'' None))"
  "activatedGuest_autoLogin = Some (renewSubscription_autoLogin 1000 samplePlan
      (userFromOrder_autoLogin 1000 7 guestOrder samplePlan ''AB12CD34EF56'' None))"
proof -
  have lower: "toLowerCase (userEmail guestOrder) = ''eve@example.com''"
    by (simp add: guestOrder_def sampleOrder_def toLowerCase_def lowerChar_def)
  have nobody: "findOne (\<lambda>u. email u = ''eve@example.com'') (db_users renewalDb) = None"
    by (simp add: findOne_def renewalDb_def freshAccount_def subscriber_def schemaDefaults_def)
  have code: "findOne (\<lambda>u. referralCode u = Some ''AB12CD34EF56'') (db_users renewalDb) = None"
    by (simp add: findOne_def renewalDb_def freshAccount_def subscriber_def schemaDefaults_def)
  have ord: "paymentStatus guestOrder \<noteq> Completed" "order_userId guestOrder = None"
    "order_planId guestOrder = 3" "order_referralCode guestOrder = None"
    by (simp_all add: guestOrder_def sampleOrder_def)
  have sig: "verifyPaymentSignature (\<lambda>t. ''a1b2'') (rz_order_id (signedVerification 16))
       (rz_payment_id (signedVerification 16)) (rz_signature (signedVerification 16))"
    "rz_ref (signedVerification 16) = 16"
    by (simp_all add: verifyPaymentSignature_def signedVerification_def)
  have noref: "referredBy (renewSubscription_autoLogin 1000 samplePlan
      (userFromOrder_autoLogin 1000 7 guestOrder samplePlan ''AB12CD34EF56'' None)) = None"
    by (simp add: renewSubscription_autoLogin_def userFromOrder_autoLogin_def schemaDefaults_def)
  show "activatedGuest = Some (renewSubscription 1000 samplePlan
      (userFromOrder 1000 7 guestOrder samplePlan ''AB12CD34EF56'' None))"
    by (simp add: activatedGuest_def guestActivation_def verifySubscriptionPayment_def sig
        renewalDb_simps ord lower nobody code validateReferralCode_def Let_def
        completeVerification_def findById_save)
  show "activatedGuest_autoLogin = Some (renewSubscription_autoLogin 1000 samplePlan
      (userFromOrder_autoLogin 1000 7 guestOrder samplePlan ''AB12CD34EF56'' None))"
    by (simp add: activatedGuest_autoLogin_def guestActivation_autoLogin_def
        verifySubscriptionPayment_autoLogin_def sig
        renewalDb_simps ord lower nobody code validateReferralCode_def Let_def
        completeVerification_autoLogin_def findById_save noref)
qed

lemma phonepeActivation_users:
  "db_users (snd phonepeActivation) =
     save (db_users sampleDb) 2
       (freshAccount\<lparr>subscription := planWindow 1000 samplePlan,
                     tokens := 100, monthlyTokensTotal := 3000, monthlyTokensRemaining := 3000\<rparr>)"
  by (simp add: phonepeActivation_def handleWebhook_def completedWebhook_parse
      processWebhook_def processSubscriptionWebhook_def sample_simps Let_def
      sampleOrder_def samplePlan_def)

lemma checkoutActivated_user:
  "checkoutActivated = Some (userFromCheckout 1000 7 guestOrder samplePlan (cr_event guestCheckout))"
proof -
  have ev: "ev_type (cr_event guestCheckout) = ''payment.success''"
    "ev_orderType (cr_event guestCheckout) = None"
    "ev_clientOrderId (cr_event guestCheckout) = ''c16''"
    "toLowerCase (ev_email (cr_event guestCheckout)) = ''eve@example.com''"
    by (simp_all add: guestCheckout_def toLowerCase_def lowerChar_def)
  have found: "findOne (\<lambda>d. clientOrderId d = ''c16'') (db_orders renewalDb) = Some guestOrder"
    by (simp add: findOne_def renewalDb_def sampleOrder_def renewalOrder_def guestOrder_def)
  have nobody: "findOne (\<lambda>u. email u = ''eve@example.com'') (db_users renewalDb) = None"
    by (simp add: findOne_def renewalDb_def freshAccount_def subscriber_def schemaDefaults_def)
  have ord: "order_status guestOrder \<noteq> Completed" "order_planId guestOrder = 3"
    by (simp_all add: guestOrder_def sampleOrder_def)
  have new: "user_id (userFromCheckout 1000 7 guestOrder samplePlan (cr_event guestCheckout)) = 7"
    "referredBy (userFromCheckout 1000 7 guestOrder samplePlan (cr_event guestCheckout)) = None"
    by (simp_all add: userFromCheckout_def schemaDefaults_def)
  show ?thesis
    by (simp add: checkoutActivated_def handleWebhook_checkout_def checkoutSignatureRejected_def
        ev found nobody ord new renewalDb_simps Let_def findById_save)
qed

text \<open>
  For every account and plan: none of the activation blocks writes the daily bucket,
  and only the controller copy with auto-login writes the bonus bucket.
\<close>

lemma activation_keeps_buckets:
  "dailyTokens (renewSubscription now pl u) = dailyTokens u"
  "bonusTokens (renewSubscription now pl u) = bonusTokens u"
  "dailyTokens (renewFromCheckout now pl u) = dailyTokens u"
  "bonusTokens (renewFromCheckout now pl u) = bonusTokens u"
  "dailyTokens (renewSubscription_autoLogin now pl u) = dailyTokens u"
  "bonus_current (bonusTokens (renewSubscription_autoLogin now pl u)) = plan_bonusTokens pl"
  "daily_current (dailyTokens (userFromOrder now freshId ord pl code referrer)) = 0"
  "bonus_current (bonusTokens (userFromOrder now freshId ord pl code referrer)) = 0"
  "daily_current (dailyTokens (userFromCheckout now freshId ord pl ev)) = 0"
  "bonus_current (bonusTokens (userFromCheckout now freshId ord pl ev)) = 0"
  "daily_current (dailyTokens (userFromOrder_autoLogin now freshId ord pl code referrer)) = 0"
  "bonus_current (bonusTokens (userFromOrder_autoLogin now freshId ord pl code referrer)) =
     plan_bonusTokens pl"
  by (simp_all add: renewSubscription_def renewFromCheckout_def renewSubscription_autoLogin_def
      userFromOrder_def userFromCheckout_def userFromOrder_autoLogin_def planBonus_def
      schemaDefaults_def)

text \<open>
  Claim C3. Activation does not fill the buckets. In the end-to-end scenario (plan with
  100 daily tokens, 30 days, 500 bonus tokens; an account whose buckets are all 0) a
  completed payment makes the subscription active from 1000 to 1000 plus 30 days with a
  daily quota of 100 and the legacy \<open>tokens\<close> counter at 100, but \<open>daily.current\<close>
  stays 0 in every handler. Through the PhonePe webhook, the Razorpay verification of
  \<open>controller/razorpayController.js\<close> and the checkout webhook the bonus bucket
  stays 0 as well and the total is 0, so a deduction of 150 right after a PhonePe
  activation fails for lack of tokens; the controller copy with auto-login grants the 500
  bonus tokens, total 500. None reaches \<open>daily.current\<close> = 100 and total 600.
\<close>

theorem activation_leaves_buckets_empty:
  "map_option bucketSum (findById (db_users sampleDb) 2) = Some 0
   \<and> map_option subscription phonepeActivated =
       Some \<lparr>sub_planId = Some 3, sub_startDate = Some 1000, sub_endDate = Some 2592001000,
             sub_isActive = Some True, sub_dailyTokens = 100, sub_monthlyAllocation = 3000\<rparr>
   \<and> map_option tokens phonepeActivated = Some 100
   \<and> map_option (daily_current \<circ> dailyTokens) phonepeActivated = Some 0
   \<and> map_option (bonus_current \<circ> bonusTokens) phonepeActivated = Some 0
   \<and> map_option (calculateTotalTokens 1000) phonepeActivated = Some 0
   \<and> fst (deductTokens 1000 (db_users (snd phonepeActivation)) 2 150) =
       Inl (InsufficientTokens 150 0)
   \<and> map_option (sub_isActive \<circ> subscription) activatedGuest = Some (Some True)
   \<and> map_option (sub_endDate \<circ> subscription) activatedGuest = Some (Some 2592001000)
   \<and> map_option tokens activatedGuest = Some 100
   \<and> map_option (daily_current \<circ> dailyTokens) activatedGuest = Some 0
   \<and> map_option (bonus_current \<circ> bonusTokens) activatedGuest = Some 0
   \<and> map_option (calculateTotalTokens 1000) activatedGuest = Some 0
   \<and> map_option (sub_isActive \<circ> subscription) checkoutActivated = Some (Some True)
   \<and> map_option (sub_endDate \<circ> subscription) checkoutActivated = Some (Some 2592001000)
   \<and> map_option tokens checkoutActivated = Some 100
   \<and> map_option (daily_current \<circ> dailyTokens) checkoutActivated = Some 0
   \<and> map_option (bonus_current \<circ> bonusTokens) checkoutActivated = Some 0
   \<and> map_option (calculateTotalTokens 1000) checkoutActivated = Some 0
   \<and> map_option (sub_isActive \<circ> subscription) activatedGuest_autoLogin = Some (Some True)
   \<and> map_option (sub_endDate \<circ> subscription) activatedGuest_autoLogin = Some (Some 2592001000)
   \<and> map_option tokens activatedGuest_autoLogin = Some 100
   \<and> map_option (daily_current \<circ> dailyTokens) activatedGuest_autoLogin = Some 0
   \<and> map_option (bonus_current \<circ> bonusTokens) activatedGuest_autoLogin = Some 500
   \<and> map_option (calculateTotalTokens 1000) activatedGuest_autoLogin = Some 500"
proof -
  have before: "map_option bucketSum (findById (db_users sampleDb) 2) = Some 0"
    by (simp add: sample_simps freshAccount_def schemaDefaults_def bucketSum_def)
  let ?p = "freshAccount\<lparr>subscription := planWindow 1000 samplePlan,
                     tokens := 100, monthlyTokensTotal := 3000, monthlyTokensRemaining := 3000\<rparr>"
  have p: "phonepeActivated = Some ?p"
    by (simp add: phonepeActivated_def phonepeActivation_users findById_save)
  have pw: "map_option subscription phonepeActivated =
       Some \<lparr>sub_planId = Some 3, sub_startDate = Some 1000, sub_endDate = Some 2592001000,
             sub_isActive = Some True, sub_dailyTokens = 100, sub_monthlyAllocation = 3000\<rparr>
   \<and> map_option tokens phonepeActivated = Some 100
   \<and> map_option (daily_current \<circ> dailyTokens) phonepeActivated = Some 0
   \<and> map_option (bonus_current \<circ> bonusTokens) phonepeActivated = Some 0
   \<and> map_option (calculateTotalTokens 1000) phonepeActivated = Some 0"
    by (simp add: p freshAccount_def schemaDefaults_def planWindow_def samplePlan_def
        calculateTotalTokens_def planExpired_def bucketSum_def)
  have live: "\<not> planExpired 1000 ?p" "calculateTotalTokens 1000 ?p = 0"
    by (simp_all add: freshAccount_def schemaDefaults_def planWindow_def samplePlan_def
        calculateTotalTokens_def planExpired_def bucketSum_def)
  have spend: "fst (deductTokens 1000 (db_users (snd phonepeActivation)) 2 150) =
       Inl (InsufficientTokens 150 0)"
    by (simp add: deductTokens_def phonepeActivation_users findById_save live Let_def)
  have g: "map_option (sub_isActive \<circ> subscription) activatedGuest = Some (Some True)
   \<and> map_option (sub_endDate \<circ> subscription) activatedGuest = Some (Some 2592001000)
   \<and> map_option tokens activatedGuest = Some 100
   \<and> map_option (daily_current \<circ> dailyTokens) activatedGuest = Some 0
   \<and> map_option (bonus_current \<circ> bonusTokens) activatedGuest = Some 0
   \<and> map_option (calculateTotalTokens 1000) activatedGuest = Some 0"
    by (simp add: guestActivation_user renewSubscription_def userFromOrder_def
        schemaDefaults_def planWindow_def samplePlan_def bucketSum_def
        calculateTotalTokens_def planExpired_def)
  have c: "map_option (sub_isActive \<circ> subscription) checkoutActivated = Some (Some True)
   \<and> map_option (sub_endDate \<circ> subscription) checkoutActivated = Some (Some 2592001000)
   \<and> map_option tokens checkoutActivated = Some 100
   \<and> map_option (daily_current \<circ> dailyTokens) checkoutActivated = Some 0
   \<and> map_option (bonus_current \<circ> bonusTokens) checkoutActivated = Some 0
   \<and> map_option (calculateTotalTokens 1000) checkoutActivated = Some 0"
    by (simp add: checkoutActivated_user userFromCheckout_def
        schemaDefaults_def planWindow_def samplePlan_def bucketSum_def
        calculateTotalTokens_def planExpired_def)
  have a: "map_option (sub_isActive \<circ> subscription) activatedGuest_autoLogin = Some (Some True)
   \<and> map_option (sub_endDate \<circ> subscription) activatedGuest_autoLogin = Some (Some 2592001000)
   \<and> map_option tokens activatedGuest_autoLogin = Some 100
   \<and> map_option (daily_current \<circ> dailyTokens) activatedGuest_autoLogin = Some 0
   \<and> map_option (bonus_current \<circ> bonusTokens) activatedGuest_autoLogin = Some 500
   \<and> map_option (calculateTotalTokens 1000) activatedGuest_autoLogin = Some 500"
    by (simp add: guestActivation_user renewSubscription_autoLogin_def
        userFromOrder_autoLogin_def planBonus_def
        schemaDefaults_def planWindow_def samplePlan_def bucketSum_def
        calculateTotalTokens_def planExpired_def)
  from before pw spend g c a show ?thesis by simp
qed

text \<open>
  The subscription order flow deletes its pending order when the gateway call fails.
\<close>

lemma createOrder_rolls_back:
  assumes "findById (db_orders db) freshId = None"
    and "\<And>amount receipt. \<exists>e. razorpayCreate amount receipt = Inl e"
  shows "snd (createOrder emailRegex castObjectId razorpayCreate freshId freshClientId db req) = db"
proof -
  have gone: "\<And>d. findByIdAndDelete (save (db_orders db) freshId d) freshId = db_orders db"
    using assms(1) by (simp add: delete_save delete_fresh)
  from assms(2) have "\<forall>amount receipt. \<exists>e. razorpayCreate amount receipt = Inl e" by blast
  then obtain err where fail: "\<And>amount receipt. razorpayCreate amount receipt = Inl (err amount receipt)"
    by metis
  show ?thesis
    by (simp add: createOrder_def Let_def gone fail split: option.splits)
qed

text \<open>
  Claim C9. The two token top-up flows do not roll back: when the gateway call fails
  after the pending \<open>TokenTransaction\<close> was saved, \<open>createTokenOrder\<close> and
  \<open>createTokenPayment\<close> answer 500 and the pending transaction stays in the store.
\<close>

theorem token_flows_keep_pending_record:
  "findById (db_transactions sampleDb) 20 = None
   \<and> fst failedTokenOrder = reply 500 (Some False) None (Some ''Failed to create order'')
   \<and> findById (db_transactions (snd failedTokenOrder)) 20 =
       Some (pendingTransaction 20 2 samplePackage (Some ''TKN_1''))
   \<and> findById (db_transactions sampleDb) 21 = None
   \<and> res_status (fst failedTokenPayment) = 500
   \<and> findById (db_transactions (snd failedTokenPayment)) 21 =
       Some (pendingTransaction 21 2 samplePackage None)"
  by (simp add: failedTokenOrder_def failedTokenPayment_def createTokenOrder_def
      createTokenPayment_def createPayment_def tokenRequest_def sample_simps Let_def
      txnValid_def pendingTransaction_def samplePackage_def findById_save reply_def)
     (simp add: sampleDb_def findById_def)

end
